theory Spec2Isabelle
  imports Main "HOL-Library.Sublist"
begin

section \<open>JavaScript values used by the handler\<close>

text \<open>
  A JavaScript string is a sequence of UTF-16 code units, and a regular expression without
  the \<open>u\<close> flag reads it one code unit at a time. Code units are modelled as natural
  numbers, so that the line separators U+2028 and U+2029, which the pattern \<open>.\<close> skips,
  can be written down. \<open>js\<close> turns an ASCII literal into its code units.
\<close>

type_synonym js_string = "nat list"

definition js :: "string \<Rightarrow> js_string" where
  "js s = map of_char s"

text \<open>A thrown value; only its \<open>name\<close> is ever inspected (\<open>err.name !== 'TimeoutError'\<close>).\<close>

datatype js_error = JSError (err_name: js_string)

text \<open>
  The \<open>data\<close> of a crawl response and the \<open>html\<close> variable of the handler: either text,
  or the value \<open>JSON.parse\<close> produced (of a type \<open>'j\<close> left open).
\<close>

datatype 'j jsval = Str js_string | Json 'j

text \<open>The settlement of an awaited promise; \<open>Pending\<close> is a promise that never settles.\<close>

datatype 'a promise = Fulfilled 'a | Rejected js_error | Pending

section \<open>Regular expressions\<close>

text \<open>
  The patterns of the sources use literals, character classes, alternation, optional parts
  and repetition only, and they are only ever used through \<open>RegExp.prototype.test\<close>. For
  such patterns the backtracking matcher answers whether some substring belongs to the
  regular language, so laziness of \<open>*?\<close> does not matter. \<open>accepts\<close> decides membership of
  the whole input by repeatedly taking the residual of the pattern after one code unit.
\<close>

datatype 'a regex =
    Fail
  | Eps
  | Cls "'a \<Rightarrow> bool"
  | Alt "'a regex" "'a regex"
  | Cat "'a regex" "'a regex"
  | Rep "'a regex"

primrec nullable :: "'a regex \<Rightarrow> bool" where
  "nullable Fail = False"
| "nullable Eps = True"
| "nullable (Cls p) = False"
| "nullable (Alt r s) = (nullable r \<or> nullable s)"
| "nullable (Cat r s) = (nullable r \<and> nullable s)"
| "nullable (Rep r) = True"

primrec residual :: "'a \<Rightarrow> 'a regex \<Rightarrow> 'a regex" where
  "residual c Fail = Fail"
| "residual c Eps = Fail"
| "residual c (Cls p) = (if p c then Eps else Fail)"
| "residual c (Alt r s) = Alt (residual c r) (residual c s)"
| "residual c (Cat r s) =
     (if nullable r then Alt (Cat (residual c r) s) (residual c s)
      else Cat (residual c r) s)"
| "residual c (Rep r) = Cat (residual c r) (Rep r)"

primrec accepts :: "'a regex \<Rightarrow> 'a list \<Rightarrow> bool" where
  "accepts r [] = nullable r"
| "accepts r (c # cs) = accepts (residual c r) cs"

definition lit :: "'a list \<Rightarrow> 'a regex" where
  "lit w = foldr (\<lambda>c r. Cat (Cls (\<lambda>x. x = c)) r) w Eps"

definition opt :: "'a regex \<Rightarrow> 'a regex" where
  "opt r = Alt r Eps"

definition one_of :: "'a list \<Rightarrow> 'a regex" where
  "one_of cs = Cls (\<lambda>x. x \<in> set cs)"

definition anything :: "'a regex" where
  "anything = Rep (Cls (\<lambda>_. True))"

text \<open>\<open>/r/.test(s)\<close>: some substring of \<open>s\<close> matches \<open>r\<close>.\<close>

definition regex_test :: "'a regex \<Rightarrow> 'a list \<Rightarrow> bool" where
  "regex_test r s = accepts (Cat anything (Cat r anything)) s"

text \<open>\<open>/^r$/.test(s)\<close> without the \<open>m\<close> flag: the whole of \<open>s\<close> matches \<open>r\<close>.\<close>

definition regex_test_anchored :: "'a regex \<Rightarrow> 'a list \<Rightarrow> bool" where
  "regex_test_anchored r s = accepts r s"

text \<open>
  The denotation of a pattern, against which the matcher is justified below.
\<close>

definition cat_lang :: "'a list set \<Rightarrow> 'a list set \<Rightarrow> 'a list set" where
  "cat_lang A B = {u @ v | u v. u \<in> A \<and> v \<in> B}"

inductive_set rep_lang :: "'a list set \<Rightarrow> 'a list set" for A :: "'a list set" where
  rep_nil: "[] \<in> rep_lang A"
| rep_app: "u \<in> A \<Longrightarrow> v \<in> rep_lang A \<Longrightarrow> u @ v \<in> rep_lang A"

primrec lang :: "'a regex \<Rightarrow> 'a list set" where
  "lang Fail = {}"
| "lang Eps = {[]}"
| "lang (Cls p) = {[c] | c. p c}"
| "lang (Alt r s) = lang r \<union> lang s"
| "lang (Cat r s) = cat_lang (lang r) (lang s)"
| "lang (Rep r) = rep_lang (lang r)"

text \<open>
  \<open>.\<close> matches every code unit but the four line terminators of ECMAScript:
  LF, CR, U+2028 and U+2029.
\<close>

definition dot :: "nat regex" where
  "dot = Cls (\<lambda>c. c \<noteq> 0x0A \<and> c \<noteq> 0x0D \<and> c \<noteq> 0x2028 \<and> c \<noteq> 0x2029)"

text \<open>\<open>/^{(.|[\r\n])*?}$/\<close> of \<open>fetchData\<close>, between its anchors.\<close>

definition regexJsonObject :: "nat regex" where
  "regexJsonObject =
     Cat (lit (js ''{''))
       (Cat (Rep (Alt dot (one_of [0x0D, 0x0A]))) (lit (js ''}'')))"

text \<open>
  \<open>new RegExp(`id=["']?${NOT_FOUND_PAGE_ID}["']?`)\<close> of the constants module compiles a
  pattern text into which the identifier is spliced. The constructor is part of the
  language, not of the sources. It is modelled by a reader for the part of the pattern
  syntax this text uses when the identifier is a plain word: characters that stand for
  themselves, \<open>.\<close>, a bracketed class of such characters, and \<open>?\<close> after one of these. On
  any other text (a backslash, an anchor, a group, a repetition, an alternation, a range
  or a negation inside a class, a \<open>?\<close> with nothing to apply to) the reader gives up and
  the pattern is whatever the constructor of the environment, a parameter, makes of it.
\<close>

definition quote :: "nat regex" where
  "quote = one_of [0x22, 0x27]"

text \<open>
  The code units with a meaning of their own in a pattern: backslash, \<open>^\<close>, \<open>$\<close>, \<open>.\<close>, \<open>*\<close>,
  \<open>+\<close>, \<open>?\<close>, the parentheses, brackets and braces, and \<open>|\<close>.
\<close>

definition regex_special :: "nat list" where
  "regex_special =
     [0x5C, 0x5E, 0x24, 0x2E, 0x2A, 0x2B, 0x3F, 0x28, 0x29, 0x5B, 0x5D, 0x7B, 0x7D, 0x7C]"

definition plain_identifier :: "js_string \<Rightarrow> bool" where
  "plain_identifier ident = (\<forall>c \<in> set ident. c \<notin> set regex_special)"

datatype token = TChar nat | TDot | TClass "nat list" | TQuest

text \<open>
  Reading the pattern text into tokens; the first argument holds the members read so far
  while inside a class. \<open>None\<close> is a text outside the part modelled.
\<close>

fun scan :: "nat list option \<Rightarrow> js_string \<Rightarrow> token list option" where
  "scan None [] = Some []"
| "scan (Some cls) [] = None"
| "scan None (c # cs) =
     (if c = 0x5B then scan (Some []) cs
      else if c = 0x3F then map_option ((#) TQuest) (scan None cs)
      else if c = 0x2E then map_option ((#) TDot) (scan None cs)
      else if c \<in> set regex_special then None
      else map_option ((#) (TChar c)) (scan None cs))"
| "scan (Some cls) (c # cs) =
     (if c = 0x5D then map_option ((#) (TClass (rev cls))) (scan None cs)
      else if c = 0x5C \<or> c = 0x5E \<or> c = 0x2D then None
      else scan (Some (c # cls)) cs)"

fun atom_regex :: "token \<Rightarrow> nat regex" where
  "atom_regex (TChar c) = Cls (\<lambda>x. x = c)"
| "atom_regex TDot = dot"
| "atom_regex (TClass cs) = one_of cs"
| "atom_regex TQuest = Fail"

text \<open>The pattern of a token list: each atom in turn, optional when \<open>?\<close> follows it.\<close>

fun build :: "token list \<Rightarrow> nat regex option" where
  "build [] = Some Eps"
| "build (TQuest # ts) = None"
| "build (a # TQuest # ts) = map_option (Cat (opt (atom_regex a))) (build ts)"
| "build (a # ts) = map_option (Cat (atom_regex a)) (build ts)"

definition compile_pattern :: "js_string \<Rightarrow> nat regex option" where
  "compile_pattern source = Option.bind (scan None source) build"

definition new_RegExp :: "(js_string \<Rightarrow> nat regex) \<Rightarrow> js_string \<Rightarrow> nat regex" where
  "new_RegExp builtin source =
     (case compile_pattern source of Some r \<Rightarrow> r | None \<Rightarrow> builtin source)"

text \<open>The text \<open>["']?\<close>, and the pattern of the constants module.\<close>

definition optional_quote :: js_string where
  "optional_quote = [0x5B, 0x22, 0x27, 0x5D, 0x3F]"

definition regexNotFoundPageID :: "(js_string \<Rightarrow> nat regex) \<Rightarrow> js_string \<Rightarrow> nat regex" where
  "regexNotFoundPageID builtin NOT_FOUND_PAGE_ID =
     new_RegExp builtin (js ''id='' @ optional_quote @ NOT_FOUND_PAGE_ID @ optional_quote)"

definition default_NOT_FOUND_PAGE_ID :: js_string where
  "default_NOT_FOUND_PAGE_ID = js ''404-page''"

text \<open>A word, character by character, in front of a pattern.\<close>

abbreviation chars :: "nat list \<Rightarrow> nat regex \<Rightarrow> nat regex" where
  "chars w r \<equiv> foldr (\<lambda>c. Cat (Cls (\<lambda>x. x = c))) w r"

section \<open>DeadlineTracker: \<open>getRestOfDuration\<close>\<close>

text \<open>
  Times are integral milliseconds. \<open>DURATION_TIMEOUT\<close> is a constant of the process and
  \<open>now\<close> is what \<open>Date.now()\<close> returns inside the call; the guard on a falsy
  \<open>startGenerating\<close> comes first. The default of \<open>gapDuration\<close> is \<open>0\<close>, written out at the
  one call that omits it.
\<close>

definition getRestOfDuration :: "int \<Rightarrow> int \<Rightarrow> int \<Rightarrow> int \<Rightarrow> int" where
  "getRestOfDuration DURATION_TIMEOUT now started gapDuration =
     (if started = 0 then 0
      else DURATION_TIMEOUT - gapDuration - (now - started))"

definition gapDurationDefault :: int where
  "gapDurationDefault = 1500"

section \<open>External crawl: \<open>fetchData\<close>\<close>

text \<open>
  What \<open>fetch\<close> does with the request: it rejects, or it answers with a status and a body
  whose reading (\<open>res.text()\<close>) may itself reject.
\<close>

datatype fetch_outcome =
    FetchRejects js_error
  | FetchResponds int "js_error + js_string"

datatype qval = QNum int | QBool bool | QStr js_string

datatype 'j fetched = Fetched (fetched_status: int) (fetched_data: "'j jsval")

definition try_catch :: "js_error + 'a \<Rightarrow> (js_error \<Rightarrow> js_error + 'a) \<Rightarrow> js_error + 'a" where
  "try_catch body handler = (case body of Inl error \<Rightarrow> handler error | Inr v \<Rightarrow> Inr v)"

text \<open>
  The \<open>try\<close> block of \<open>fetchData\<close> (lines 45 to 67): \<open>Inl\<close> is an exception thrown inside
  it. The request is kept as the endpoint and the parameters it is built from.
\<close>

definition fetchData_body ::
  "(js_string \<Rightarrow> js_error + 'j) \<Rightarrow>
   (js_string \<Rightarrow> (js_string \<times> qval) list option \<Rightarrow> fetch_outcome) \<Rightarrow>
   js_string \<Rightarrow> (js_string \<times> qval) list option \<Rightarrow> js_error + 'j fetched" where
  "fetchData_body JSON_parse fetch input reqData =
     (case fetch input reqData of
        FetchRejects error \<Rightarrow> Inl error
      | FetchResponds st text \<Rightarrow>
          (case text of
             Inl error \<Rightarrow> Inl error
           | Inr body \<Rightarrow>
               if regex_test_anchored regexJsonObject body
               then (case JSON_parse body of
                       Inl error \<Rightarrow> Inl error
                     | Inr v \<Rightarrow> Inr (Fetched st (Json v)))
               else Inr (Fetched st (Str body))))"

definition fetchData ::
  "(js_string \<Rightarrow> js_error + 'j) \<Rightarrow>
   (js_string \<Rightarrow> (js_string \<times> qval) list option \<Rightarrow> fetch_outcome) \<Rightarrow>
   js_string \<Rightarrow> (js_string \<times> qval) list option \<Rightarrow> js_error + 'j fetched" where
  "fetchData JSON_parse fetch input reqData =
     try_catch (fetchData_body JSON_parse fetch input reqData)
       (\<lambda>error. Inr (Fetched 500 (Str [])))"

section \<open>The handler's surroundings\<close>

text \<open>
  \<open>ISSRResult\<close>, the result of a render: a status and, when present, the document.
\<close>

record 'j ISSRResult =
  status :: int
  html :: "'j jsval option"

record IISRHandlerParam =
  startGenerating :: int
  isFirstRequest :: bool
  url :: js_string

text \<open>
  A page handle of the browser, as what each of its operations does during this call: an
  awaited operation resolves (\<open>None\<close>) or rejects, \<open>goto\<close> resolves to a response with a
  status or to \<open>null\<close>, and the \<open>k\<close>-th call of \<open>content\<close> returns the serialized document.
\<close>

record Page =
  page_waitForNetworkIdle :: "js_error option"
  page_setRequestInterception :: "js_error option"
  page_setExtraHTTPHeaders :: "js_error option"
  page_goto :: "js_string \<Rightarrow> js_error + int option"
  page_content :: "nat \<Rightarrow> js_error + js_string"
  page_close :: "js_error option"

text \<open>
  The calls the handler makes to its collaborators, in the order it makes them. The external
  crawl and the browser are the two acquisitions; the cache is called through \<open>achieve\<close>,
  \<open>set\<close> and \<open>remove\<close>.
\<close>

datatype 'j event =
    CrawlFetch js_string "(js_string \<times> qval) list"
  | NewPage
  | PageClose
  | PoolExec "'j jsval"
  | PoolTerminate
  | CacheAchieve js_string
  | CacheSet js_string "'j jsval"
  | CacheRemove js_string

text \<open>
  The state a call runs in: the content of the cache store, of a type \<open>'c\<close> left open, and
  the calls made so far.
\<close>

record ('c, 'j) world =
  store :: 'c
  trace :: "'j event list"

definition emit :: "'j event \<Rightarrow> ('c, 'j) world \<Rightarrow> ('c, 'j) world" where
  "emit e w = w\<lparr>trace := trace w @ [e]\<rparr>"

text \<open>
  Everything the handler reads from outside. \<open>Date_now k\<close> is the \<open>k\<close>-th reading of the
  clock during the call (the handler takes them at a fixed sequence of places). \<open>RegExp\<close>
  is the constructor of the language on the pattern texts the reader above gives up on.
  \<open>CacheManager\<close>, \<open>BrowserManager\<close>, \<open>ServerConfig\<close> and the optimizing worker are not among
  the sources, so their operations are parameters, with the signatures of the cache
  contract: \<open>achieve\<close> and \<open>set\<close> return a result or nothing together with the new store,
  \<open>remove\<close> returns the new store, \<open>newPage\<close> returns a page handle or nothing, and the
  worker's \<open>optimizeContent\<close> returns the optimized document or throws.
\<close>

record ('c, 'j) env =
  DURATION_TIMEOUT :: int
  Date_now :: "nat \<Rightarrow> int"
  NOT_FOUND_PAGE_ID :: js_string
  RegExp :: "js_string \<Rightarrow> nat regex"
  ServerConfig_crawler :: "js_string option"
  ServerConfig_crawlerSecretKey :: "js_string option"
  fetch :: "js_string \<Rightarrow> (js_string \<times> qval) list option \<Rightarrow> fetch_outcome"
  JSON_parse :: "js_string \<Rightarrow> js_error + 'j"
  browserManager_newPage :: "Page option"
  optimizeContent :: "'j jsval \<Rightarrow> bool \<Rightarrow> js_error + 'j jsval"
  cacheManager_achieve :: "js_string \<Rightarrow> 'c \<Rightarrow> 'j ISSRResult option \<times> 'c"
  cacheManager_set :: "js_string \<Rightarrow> 'j jsval \<Rightarrow> bool \<Rightarrow> 'c \<Rightarrow> 'j ISSRResult option \<times> 'c"
  cacheManager_remove :: "js_string \<Rightarrow> 'c \<Rightarrow> 'c"

text \<open>Truthiness of an optional string of the configuration: set and not empty.\<close>

definition truthy :: "js_string option \<Rightarrow> bool" where
  "truthy x = (case x of None \<Rightarrow> False | Some s \<Rightarrow> s \<noteq> [])"

text \<open>\<open>CACHEABLE_STATUS_CODE[status]\<close> for the table \<open>{ 200: true, 302: true }\<close>.\<close>

definition CACHEABLE_STATUS_CODE :: "int \<Rightarrow> bool" where
  "CACHEABLE_STATUS_CODE st = (st = 200 \<or> st = 302)"

section \<open>\<open>waitResponse\<close>\<close>

text \<open>
  Navigation and settling (lines 77 to 132). A rejected \<open>goto\<close> rejects the outer promise. Once \<open>goto\<close> has
  resolved, the code runs inside the \<open>async\<close> executor of that promise: if the first
  \<open>page.content()\<close> throws there, neither \<open>resolve\<close> nor \<open>reject\<close> is ever called and the
  promise stays pending. Otherwise it resolves with the response, at once when the
  not-found marker is in the document, and else after the quiet period or the 10 s
  timer, whichever fires first; the timers are not modelled, only that they fire. The
  second component counts the calls of \<open>page.content()\<close> made. The first argument is
  the module's \<open>regexNotFoundPageID\<close>.
\<close>

definition waitResponse ::
  "nat regex \<Rightarrow> Page \<Rightarrow> js_string \<Rightarrow> int \<Rightarrow> int option promise \<times> nat" where
  "waitResponse pat page u duration =
     (case page_goto page (takeWhile (\<lambda>c. c \<noteq> of_char CHR ''?'') u) of
        Inl err \<Rightarrow> (Rejected err, 0)
      | Inr result \<Rightarrow>
          (case page_content page 0 of
             Inl err \<Rightarrow> (Pending, 1)
           | Inr h \<Rightarrow>
               if regex_test pat h then (Fulfilled result, 1)
               else (Fulfilled result, 1)))"

section \<open>\<open>ISRHandler\<close>\<close>

text \<open>
  The body of the handler (lines 136 to 315 of \<open>ISRHandler.ts\<close>) is cut at its own blank
  lines into the stale fallback (\<open>cacheManager.achieve\<close>, lines 148 to 150 and 196 to 198),
  the external crawl (lines 155 to 189), the browser render (lines 191 to 275), and the
  final classification with optimization and cache write (lines 280 to 314). Each
  function returns the state it leaves; one that can end the whole call returns \<open>Inl\<close> of
  the handler's result, and \<open>Inr\<close> of the values the handler goes on with.
\<close>

definition serveStale ::
  "('c, 'j) env \<Rightarrow> js_string \<Rightarrow> ('c, 'j) world \<Rightarrow>
   'j ISSRResult option promise \<times> ('c, 'j) world" where
  "serveStale env u w =
     (case cacheManager_achieve env u (store w) of
        (tmpResult, c) \<Rightarrow> (Fulfilled tmpResult, emit (CacheAchieve u) (w\<lparr>store := c\<rparr>)))"

text \<open>
  The external crawl (lines 155 to 189). \<open>html\<close> and \<open>status\<close> start as \<open>''\<close> and \<open>200\<close> and are taken from
  the result of \<open>fetchData\<close>, which is an object and so always truthy; the \<open>catch\<close> around the
  call leaves them as they are.
\<close>

definition requestParams ::
  "('c, 'j) env \<Rightarrow> int \<Rightarrow> js_string \<Rightarrow> (js_string \<times> qval) list" where
  "requestParams env started u =
     [(js ''startGenerating'', QNum started),
      (js ''isFirstRequest'', QBool True),
      (js ''url'', QStr u)] @
     (case ServerConfig_crawlerSecretKey env of
        None \<Rightarrow> []
      | Some k \<Rightarrow> if k \<noteq> [] then [(js ''crawlerSecretKey'', QStr k)] else [])"

definition crawlByExternal ::
  "('c, 'j) env \<Rightarrow> int \<Rightarrow> js_string \<Rightarrow> ('c, 'j) world \<Rightarrow>
   int \<times> 'j jsval \<times> ('c, 'j) world" where
  "crawlByExternal env started u w =
     (case ServerConfig_crawler env of
        None \<Rightarrow> (200, Str [], w)
      | Some endpoint \<Rightarrow>
          if endpoint = [] then (200, Str [], w)
          else
            (case fetchData (JSON_parse env) (fetch env) endpoint
                    (Some (requestParams env started u)) of
               Inl err \<Rightarrow> (200, Str [], emit (CrawlFetch endpoint (requestParams env started u)) w)
             | Inr result \<Rightarrow>
                 (fetched_status result, fetched_data result,
                  emit (CrawlFetch endpoint (requestParams env started u)) w)))"

text \<open>
  The outer \<open>catch\<close> of the browser render (lines 252 to 259): close the page and return
  \<open>{status: 500}\<close>; a \<open>close\<close> that throws there rejects the call.
\<close>

definition closeAfterError ::
  "Page \<Rightarrow> ('c, 'j) world \<Rightarrow> 'j ISSRResult option promise \<times> ('c, 'j) world" where
  "closeAfterError page w =
     (case page_close page of
        Some err \<Rightarrow> (Rejected err, emit PageClose w)
      | None \<Rightarrow> (Fulfilled (Some \<lparr>status = 500, html = None\<rparr>), emit PageClose w))"

text \<open>
  \<open>html && regexNotFoundPageID.test(html) ? 404 : 200\<close>, the status after a browser render
  (line 274).
\<close>

definition notFoundStatus :: "nat regex \<Rightarrow> js_string \<Rightarrow> int" where
  "notFoundStatus pat h = (if h \<noteq> [] \<and> regex_test pat h then 404 else 200)"

text \<open>
  Reading the settled document (lines 266 to 274): \<open>page.content()\<close> for the \<open>k\<close>-th time,
  then \<open>page.close()\<close>; either throwing returns nothing. Then \<open>status\<close> is assigned as
  above, whatever it was.
\<close>

definition readContent ::
  "nat regex \<Rightarrow> Page \<Rightarrow> nat \<Rightarrow> int \<Rightarrow> ('c, 'j) world \<Rightarrow>
   ('j ISSRResult option promise \<times> ('c, 'j) world) + (int \<times> 'j jsval \<times> ('c, 'j) world)" where
  "readContent pat page k st w =
     (case page_content page k of
        Inl err \<Rightarrow> Inl (Fulfilled None, w)
      | Inr h \<Rightarrow>
          (case page_close page of
             Some err \<Rightarrow> Inl (Fulfilled None, emit PageClose w)
           | None \<Rightarrow> Inr (notFoundStatus pat h, Str h, emit PageClose w)))"

text \<open>
  The browser render (lines 192 to 264, then the reading above). Without a page handle the
  call ends: with the stale entry when this is not the first request, with nothing
  otherwise. With one, an exception of the set-up
  goes to the outer \<open>catch\<close>; a navigation error other than \<open>TimeoutError\<close> sets
  \<open>isGetHtmlProcessError\<close>, closes the page and ends the call with \<open>{status: 500}\<close>; a
  \<open>TimeoutError\<close> keeps \<open>status\<close>; a response replaces it by \<open>response.status()\<close>.
  The request handler installed on the page and the extra headers decide what the
  browser loads, not what the handler does next; they are part of what the page answers.
\<close>

definition crawlByBrowser ::
  "('c, 'j) env \<Rightarrow> IISRHandlerParam \<Rightarrow> int \<Rightarrow> int \<Rightarrow> ('c, 'j) world \<Rightarrow>
   ('j ISSRResult option promise \<times> ('c, 'j) world) + (int \<times> 'j jsval \<times> ('c, 'j) world)" where
  "crawlByBrowser env param restOfDuration st w =
     (case browserManager_newPage env of
        None \<Rightarrow>
          if \<not> isFirstRequest param then Inl (serveStale env (url param) (emit NewPage w))
          else Inl (Fulfilled None, emit NewPage w)
      | Some page \<Rightarrow>
          (case page_waitForNetworkIdle page of
             Some err \<Rightarrow> Inl (closeAfterError page (emit NewPage w))
           | None \<Rightarrow>
          (case page_setRequestInterception page of
             Some err \<Rightarrow> Inl (closeAfterError page (emit NewPage w))
           | None \<Rightarrow>
          (case page_setExtraHTTPHeaders page of
             Some err \<Rightarrow> Inl (closeAfterError page (emit NewPage w))
           | None \<Rightarrow>
          (case waitResponse (regexNotFoundPageID (RegExp env) (NOT_FOUND_PAGE_ID env)) page
                  (url param) restOfDuration of
             (Pending, k) \<Rightarrow> Inl (Pending, emit NewPage w)
           | (Rejected err, k) \<Rightarrow>
               if err_name err \<noteq> js ''TimeoutError''
               then Inl (Fulfilled (Some \<lparr>status = 500, html = None\<rparr>),
                         emit PageClose (emit NewPage w))
               else readContent (regexNotFoundPageID (RegExp env) (NOT_FOUND_PAGE_ID env))
                      page k st (emit NewPage w)
           | (Fulfilled response, k) \<Rightarrow>
               readContent (regexNotFoundPageID (RegExp env) (NOT_FOUND_PAGE_ID env))
                 page k (case response of None \<Rightarrow> st | Some s \<Rightarrow> s)
                 (emit NewPage w))))))"

text \<open>
  The end of the handler (lines 280 to 314). The budget is read once more with no gap and not used. A
  cacheable status sends the document to the worker pool, which is terminated whatever
  happens; when the worker throws the call returns nothing, otherwise the optimized
  document is written with \<open>isRaw: true\<close> and the store's answer is returned. Any other
  status removes the entry of the URL and returns the status with the document, or with
  \<open>'Page not found!'\<close> for 404.
\<close>

definition cacheResult ::
  "('c, 'j) env \<Rightarrow> js_string \<Rightarrow> int \<Rightarrow> int \<Rightarrow> 'j jsval \<Rightarrow> ('c, 'j) world \<Rightarrow>
   'j ISSRResult option promise \<times> ('c, 'j) world" where
  "cacheResult env u started st h w =
     (let restOfDuration = getRestOfDuration (DURATION_TIMEOUT env) (Date_now env 3) started 0
      in
        if CACHEABLE_STATUS_CODE st then
          (case optimizeContent env h True of
             Inl err \<Rightarrow> (Fulfilled None, emit PoolTerminate (emit (PoolExec h) w))
           | Inr optimized \<Rightarrow>
               (case cacheManager_set env u optimized True (store w) of
                  (result, c) \<Rightarrow>
                    (Fulfilled result,
                     emit (CacheSet u optimized)
                       (emit PoolTerminate (emit (PoolExec h) (w\<lparr>store := c\<rparr>))))))
        else
          (Fulfilled
             (Some \<lparr>status = st,
                    html = Some (if st = 404 then Str (js ''Page not found!'') else h)\<rparr>),
           emit (CacheRemove u) (w\<lparr>store := cacheManager_remove env u (store w)\<rparr>)))"

text \<open>
  The acquisition: the external crawl when an endpoint is configured, then the browser
  render when none is or when the crawl ended with status 500. \<open>Inr\<close> carries the \<open>status\<close>
  and \<open>html\<close> with which the handler reaches its last part.
\<close>

definition acquire ::
  "('c, 'j) env \<Rightarrow> IISRHandlerParam \<Rightarrow> int \<Rightarrow> int \<Rightarrow> ('c, 'j) world \<Rightarrow>
   ('j ISSRResult option promise \<times> ('c, 'j) world) + (int \<times> 'j jsval \<times> ('c, 'j) world)" where
  "acquire env param started restOfDuration w =
     (case crawlByExternal env started (url param) w of
        (st, h, w1) \<Rightarrow>
          if \<not> truthy (ServerConfig_crawler env) \<or> st = 500
          then crawlByBrowser env param restOfDuration st w1
          else Inr (st, h, w1))"

text \<open>Everything after the budget checks.\<close>

definition generatePage ::
  "('c, 'j) env \<Rightarrow> IISRHandlerParam \<Rightarrow> int \<Rightarrow> int \<Rightarrow> ('c, 'j) world \<Rightarrow>
   'j ISSRResult option promise \<times> ('c, 'j) world" where
  "generatePage env param started restOfDuration w =
     (case acquire env param started restOfDuration w of
        Inl finished \<Rightarrow> finished
      | Inr (st, h, w2) \<Rightarrow> cacheResult env (url param) started st h w2)"

text \<open>
  The handler. It destructures \<open>isFirstRequest\<close> and \<open>url\<close> only and reads the clock for its
  own \<open>startGenerating\<close> (line 137). The first check (line 138) returns nothing; the
  second (lines 144 to 153), on a fresh reading, serves the stale entry when this is not
  the first request.
\<close>

definition ISRHandler ::
  "('c, 'j) env \<Rightarrow> IISRHandlerParam \<Rightarrow> ('c, 'j) world \<Rightarrow>
   'j ISSRResult option promise \<times> ('c, 'j) world" where
  "ISRHandler env param w =
     (let startGenerating = Date_now env 0 in
        if getRestOfDuration (DURATION_TIMEOUT env) (Date_now env 1) startGenerating
             gapDurationDefault \<le> 0
        then (Fulfilled None, w)
        else
          let restOfDuration =
                getRestOfDuration (DURATION_TIMEOUT env) (Date_now env 2) startGenerating
                  gapDurationDefault
          in
            if restOfDuration \<le> 0 then
              (if \<not> isFirstRequest param then serveStale env (url param) w
               else (Fulfilled None, w))
            else generatePage env param startGenerating restOfDuration w)"

text \<open>The remaining budget as the handler computes it at its \<open>k\<close>-th reading of the clock.\<close>

abbreviation budget_check :: "('c, 'j) env \<Rightarrow> nat \<Rightarrow> int" where
  "budget_check env k \<equiv>
     getRestOfDuration (DURATION_TIMEOUT env) (Date_now env k) (Date_now env 0)
       gapDurationDefault"

text \<open>
  The status with which the external crawl returned, when an endpoint is configured;
  \<open>None\<close> when none is.
\<close>

definition externalStatus :: "('c, 'j) env \<Rightarrow> int \<Rightarrow> js_string \<Rightarrow> int option" where
  "externalStatus env started u =
     (case ServerConfig_crawler env of
        None \<Rightarrow> None
      | Some endpoint \<Rightarrow>
          if endpoint = [] then None
          else
            (case fetchData (JSON_parse env) (fetch env) endpoint
                    (Some (requestParams env started u)) of
               Inl err \<Rightarrow> None
             | Inr result \<Rightarrow> Some (fetched_status result)))"

text \<open>The calls made between two states of one run, and the kinds of call.\<close>

definition new_events :: "('c, 'j) world \<Rightarrow> ('c, 'j) world \<Rightarrow> 'j event list" where
  "new_events w w' = drop (length (trace w)) (trace w')"

fun is_acquisition :: "'j event \<Rightarrow> bool" where
  "is_acquisition (CrawlFetch endpoint reqData) = True"
| "is_acquisition NewPage = True"
| "is_acquisition e = False"

fun is_cache_write :: "'j event \<Rightarrow> bool" where
  "is_cache_write (CacheSet u h) = True"
| "is_cache_write e = False"

fun is_cache_mutation :: "'j event \<Rightarrow> bool" where
  "is_cache_mutation (CacheSet u h) = True"
| "is_cache_mutation (CacheRemove u) = True"
| "is_cache_mutation e = False"

section \<open>The words of the specification\<close>

text \<open>
  The shape the specification gives for a JSON body, \<open>^{...}$\<close>: a single object spanning
  the entire body, that is, an opening brace first and a closing brace last.
\<close>

definition spec_json_object_shape :: "js_string \<Rightarrow> bool" where
  "spec_json_object_shape body =
     (body \<noteq> [] \<and> hd body = of_char CHR ''{'' \<and> last body = of_char CHR ''}'')"

text \<open>
  The sentinel marker of the specification: an element carrying \<open>id="<configured-id>"\<close>.
  A serialized document writes the attribute of such an element exactly so, hence a
  document without this text has no element with that id.
\<close>

definition spec_sentinel_marker :: "js_string \<Rightarrow> js_string \<Rightarrow> bool" where
  "spec_sentinel_marker ident h = sublist (js ''id=\"'' @ ident @ js ''\"'') h"

text \<open>What the pattern for the marker looks for: \<open>id=\<close>, at most one quote, the identifier.\<close>

definition marker_text :: "js_string \<Rightarrow> js_string \<Rightarrow> bool" where
  "marker_text ident h =
     (sublist (js ''id='' @ ident) h \<or>
      sublist (js ''id=\"'' @ ident) h \<or>
      sublist (js ''id='' @ [0x27] @ ident) h)"

section \<open>A cache store and a sample environment\<close>

text \<open>
  Modelled from the spec: \<open>CacheManager\<close> is not among the sources. The store keeps one
  document per URL; \<open>achieve\<close> returns the entry of the URL if there is one and changes
  nothing, \<open>set\<close> overwrites the entry and acknowledges with status 200, \<open>remove\<close> deletes
  the entry and is idempotent.
\<close>

type_synonym 'j spec_cache = "(js_string \<times> 'j jsval) list"

definition spec_achieve :: "js_string \<Rightarrow> 'j spec_cache \<Rightarrow> 'j ISSRResult option \<times> 'j spec_cache" where
  "spec_achieve u c =
     (case map_of c u of
        None \<Rightarrow> (None, c)
      | Some h \<Rightarrow> (Some \<lparr>status = 200, html = Some h\<rparr>, c))"

definition spec_remove :: "js_string \<Rightarrow> 'j spec_cache \<Rightarrow> 'j spec_cache" where
  "spec_remove u c = filter (\<lambda>entry. fst entry \<noteq> u) c"

definition spec_set ::
  "js_string \<Rightarrow> 'j jsval \<Rightarrow> bool \<Rightarrow> 'j spec_cache \<Rightarrow> 'j ISSRResult option \<times> 'j spec_cache" where
  "spec_set u h isRaw c = (Some \<lparr>status = 200, html = Some h\<rparr>, (u, h) # spec_remove u c)"

text \<open>
  A healthy environment for the concrete runs below: the default timeout of 20 s, a clock
  that advances by one millisecond per reading, no crawl endpoint, a browser whose page
  loads and serializes to a small document, an optimizer that returns its input.
\<close>

definition doc_plain :: js_string where
  "doc_plain = js ''<html><body>hi</body></html>''"

definition page_rendering :: "js_string \<Rightarrow> Page" where
  "page_rendering doc =
     \<lparr>page_waitForNetworkIdle = None,
      page_setRequestInterception = None,
      page_setExtraHTTPHeaders = None,
      page_goto = (\<lambda>u. Inr (Some 200)),
      page_content = (\<lambda>k. Inr doc),
      page_close = None\<rparr>"

definition sample_env :: "(unit spec_cache, unit) env" where
  "sample_env =
     \<lparr>DURATION_TIMEOUT = 20000,
      Date_now = (\<lambda>k. 1700000000000 + int k),
      NOT_FOUND_PAGE_ID = default_NOT_FOUND_PAGE_ID,
      RegExp = (\<lambda>source. Fail),
      ServerConfig_crawler = None,
      ServerConfig_crawlerSecretKey = None,
      fetch = (\<lambda>input reqData. FetchRejects (JSError (js ''TypeError''))),
      JSON_parse = (\<lambda>body. Inl (JSError (js ''SyntaxError''))),
      browserManager_newPage = Some (page_rendering doc_plain),
      optimizeContent = (\<lambda>h deep. Inr h),
      cacheManager_achieve = spec_achieve,
      cacheManager_set = spec_set,
      cacheManager_remove = spec_remove\<rparr>"

definition sample_param :: IISRHandlerParam where
  "sample_param = \<lparr>startGenerating = 1700000000000, isFirstRequest = False, url = js ''/p''\<rparr>"

definition sample_world :: "(unit spec_cache, unit) world" where
  "sample_world = \<lparr>store = [(js ''/p'', Str (js ''<p>old</p>''))], trace = []\<rparr>"

text \<open>Variations of the sample environment, one per situation examined below.\<close>

definition env_short_timeout :: "(unit spec_cache, unit) env" where
  "env_short_timeout = sample_env\<lparr>DURATION_TIMEOUT := 1000\<rparr>"

definition env_epoch_clock :: "(unit spec_cache, unit) env" where
  "env_epoch_clock = sample_env\<lparr>Date_now := (\<lambda>k. int k)\<rparr>"

definition env_no_page :: "(unit spec_cache, unit) env" where
  "env_no_page = sample_env\<lparr>browserManager_newPage := None\<rparr>"

definition env_external_403 :: "(unit spec_cache, unit) env" where
  "env_external_403 =
     sample_env\<lparr>ServerConfig_crawler := Some (js ''http://crawler''),
                fetch := (\<lambda>input reqData. FetchResponds 403 (Inr (js ''denied'')))\<rparr>"

definition env_crawler_down :: "(unit spec_cache, unit) env" where
  "env_crawler_down = sample_env\<lparr>ServerConfig_crawler := Some (js ''http://crawler'')\<rparr>"

definition env_optimizer_fails :: "(unit spec_cache, unit) env" where
  "env_optimizer_fails =
     sample_env\<lparr>optimizeContent := (\<lambda>h deep. Inl (JSError (js ''Error'')))\<rparr>"

definition env_renders :: "js_string \<Rightarrow> (unit spec_cache, unit) env" where
  "env_renders doc = sample_env\<lparr>browserManager_newPage := Some (page_rendering doc)\<rparr>"

definition doc_not_found :: js_string where
  "doc_not_found = js ''<div id=\"404-page\"></div>''"

definition doc_longer_id :: js_string where
  "doc_longer_id = js ''<div id=\"404-page-old\"></div>''"

definition body_with_separator :: js_string where
  "body_with_separator = js ''{\"a\":\"'' @ [0x2028] @ js ''\"}''"

definition first_param :: IISRHandlerParam where
  "first_param = sample_param\<lparr>isFirstRequest := True\<rparr>"

section \<open>The matcher decides the denotation\<close>

lemma nullable_lang: "nullable r \<longleftrightarrow> [] \<in> lang r"
  by (induction r) (auto simp: cat_lang_def intro: rep_lang.rep_nil)

lemma cat_lang_Cons:
  "c # w \<in> cat_lang A B \<longleftrightarrow>
     (\<exists>u v. w = u @ v \<and> c # u \<in> A \<and> v \<in> B) \<or> ([] \<in> A \<and> c # w \<in> B)"
  by (auto simp: cat_lang_def Cons_eq_append_conv)

lemma rep_lang_Cons_D:
  assumes "x \<in> rep_lang A" and "x = c # w"
  shows "\<exists>u v. w = u @ v \<and> c # u \<in> A \<and> v \<in> rep_lang A"
  using assms
proof (induction arbitrary: w rule: rep_lang.induct)
  case rep_nil
  then show ?case by simp
next
  case (rep_app u v)
  show ?case
  proof (cases u)
    case Nil
    with rep_app show ?thesis by simp
  next
    case (Cons a u')
    with rep_app.prems have "a = c" and "w = u' @ v" by simp_all
    with Cons rep_app.hyps show ?thesis by blast
  qed
qed

lemma rep_lang_Cons:
  "c # w \<in> rep_lang A \<longleftrightarrow> (\<exists>u v. w = u @ v \<and> c # u \<in> A \<and> v \<in> rep_lang A)"
proof
  assume "c # w \<in> rep_lang A"
  then show "\<exists>u v. w = u @ v \<and> c # u \<in> A \<and> v \<in> rep_lang A"
    by (rule rep_lang_Cons_D) simp
next
  assume "\<exists>u v. w = u @ v \<and> c # u \<in> A \<and> v \<in> rep_lang A"
  then obtain u v where "w = u @ v" "c # u \<in> A" "v \<in> rep_lang A" by blast
  then show "c # w \<in> rep_lang A"
    using rep_lang.rep_app [of "c # u" A v] by simp
qed

lemma residual_lang: "w \<in> lang (residual c r) \<longleftrightarrow> c # w \<in> lang r"
proof (induction r arbitrary: w)
  case (Cat r1 r2)
  then show ?case
    by (auto simp: cat_lang_Cons nullable_lang) (auto simp: cat_lang_def)
next
  case (Rep r)
  then show ?case
    by (auto simp: rep_lang_Cons) (auto simp: cat_lang_def)
qed auto

lemma accepts_lang: "accepts r w \<longleftrightarrow> w \<in> lang r"
  by (induction w arbitrary: r) (simp_all add: nullable_lang residual_lang)

lemma lang_lit: "lang (lit w) = {w}"
  by (induction w) (auto simp: lit_def cat_lang_def)

lemma rep_lang_classes: "rep_lang {[c] | c. p c} = {w. \<forall>c \<in> set w. p c}"
proof (rule set_eqI)
  fix w
  show "w \<in> rep_lang {[c] | c. p c} \<longleftrightarrow> w \<in> {w. \<forall>c \<in> set w. p c}"
  proof (induction w)
    case Nil
    then show ?case by (simp add: rep_lang.rep_nil)
  next
    case (Cons a w)
    then show ?case by (auto simp: rep_lang_Cons)
  qed
qed

lemma lang_anything: "lang anything = UNIV"
  using rep_lang_classes [of "\<lambda>_. True"] by (simp add: anything_def)

lemma regex_test_iff: "regex_test r s \<longleftrightarrow> (\<exists>m \<in> lang r. sublist m s)"
  by (auto simp: regex_test_def accepts_lang lang_anything cat_lang_def sublist_def)

section \<open>The two patterns of the sources\<close>

lemma js_simps:
  "js [] = []" "js (c # cs) = of_char c # js cs"
  by (simp_all add: js_def)

lemma js_not_Nil: "js (c # cs) \<noteq> []"
  by (simp add: js_def)

lemma lang_opt_quote: "lang (opt quote) = {[], [0x22], [0x27]}"
  by (auto simp: opt_def quote_def one_of_def)

lemma lang_chars: "lang (chars w r) = {w @ v | v. v \<in> lang r}"
  by (induction w) (auto simp: cat_lang_def)

text \<open>The reader on a plain word and on \<open>["']?\<close>.\<close>

lemma scan_plain:
  "plain_identifier w \<Longrightarrow>
   scan None (w @ rest) = map_option ((@) (map TChar w)) (scan None rest)"
proof (induction w)
  case Nil
  then show ?case by (simp add: option.map_ident)
next
  case (Cons c w)
  then have "c \<in> set regex_special \<longleftrightarrow> False" and "plain_identifier w"
    by (simp_all add: plain_identifier_def)
  moreover from Cons.prems have "c \<noteq> 0x5B" "c \<noteq> 0x3F" "c \<noteq> 0x2E"
    by (auto simp: plain_identifier_def regex_special_def)
  ultimately show ?case
    using Cons.IH by (simp add: option.map_comp comp_def)
qed

lemma scan_optional_quote:
  "scan None (optional_quote @ rest) =
     map_option (\<lambda>ts. TClass [0x22, 0x27] # TQuest # ts) (scan None rest)"
  by (simp add: optional_quote_def option.map_comp comp_def)

lemma build_chars:
  "ts = [] \<or> hd ts \<noteq> TQuest \<Longrightarrow>
   build (map TChar w @ ts) = map_option (chars w) (build ts)"
proof (induction w)
  case Nil
  then show ?case by (simp add: option.map_ident)
next
  case (Cons c w)
  show ?case
  proof (cases w)
    case Nil
    with Cons.prems show ?thesis
      by (cases ts; cases "hd ts") (auto simp: option.map_ident)
  next
    case (Cons d w')
    with Cons.IH Cons.prems show ?thesis
      by (simp add: option.map_comp comp_def)
  qed
qed

lemma plain_id_eq: "plain_identifier (js ''id='')"
  by (simp add: plain_identifier_def regex_special_def js_simps)

lemma compile_not_found_pattern:
  assumes "plain_identifier ident"
  shows "compile_pattern (js ''id='' @ optional_quote @ ident @ optional_quote) =
           Some (chars (js ''id='') (Cat (opt quote) (chars ident (Cat (opt quote) Eps))))"
proof -
  have "scan None (js ''id='' @ optional_quote @ ident @ optional_quote) =
      Some (map TChar (js ''id='') @
            TClass [0x22, 0x27] # TQuest # map TChar ident @ [TClass [0x22, 0x27], TQuest])"
    using scan_optional_quote [of "[]"]
    by (simp add: scan_plain [OF plain_id_eq] scan_plain [OF assms] scan_optional_quote)
  moreover have "build (map TChar ident @ [TClass [0x22, 0x27], TQuest]) =
      Some (chars ident (Cat (opt quote) Eps))"
    by (simp add: build_chars quote_def)
  ultimately show ?thesis
    by (simp add: compile_pattern_def build_chars quote_def)
qed

text \<open>
  For a plain identifier the pattern of the constants module denotes \<open>id=\<close>, at most one
  quote, the identifier, and at most one quote, whatever the constructor does elsewhere.
\<close>

lemma lang_regexNotFoundPageID:
  assumes "plain_identifier ident"
  shows "lang (regexNotFoundPageID builtin ident) =
     {js ''id='' @ q @ ident @ q' | q q'.
        q \<in> {[], [0x22], [0x27]} \<and> q' \<in> {[], [0x22], [0x27]}}"
proof -
  have "lang (regexNotFoundPageID builtin ident) =
      lang (chars (js ''id='') (Cat (opt quote) (chars ident (Cat (opt quote) Eps))))"
    by (simp add: regexNotFoundPageID_def new_RegExp_def compile_not_found_pattern [OF assms])
  also have "\<dots> = {js ''id='' @ q @ ident @ q' | q q'.
        q \<in> {[], [0x22], [0x27]} \<and> q' \<in> {[], [0x22], [0x27]}}"
    unfolding lang_chars lang.simps lang_opt_quote cat_lang_def
    by (auto; blast)
  finally show ?thesis .
qed

lemma sublist_shorten: "sublist (a @ b) h \<Longrightarrow> sublist a h"
  unfolding sublist_def by (metis append.assoc)

lemma regexNotFoundPageID_test:
  assumes plain: "plain_identifier ident"
  shows "regex_test (regexNotFoundPageID builtin ident) h \<longleftrightarrow>
     sublist (js ''id='' @ ident) h \<or>
     sublist (js ''id='' @ [0x22] @ ident) h \<or>
     sublist (js ''id='' @ [0x27] @ ident) h"
proof
  assume "regex_test (regexNotFoundPageID builtin ident) h"
  then obtain q q' where q: "q \<in> {[], [0x22], [0x27]}"
    and m: "sublist (js ''id='' @ q @ ident @ q') h"
    by (auto simp: regex_test_iff lang_regexNotFoundPageID [OF plain])
  from m have "sublist ((js ''id='' @ q @ ident) @ q') h" by simp
  then have "sublist (js ''id='' @ q @ ident) h" by (rule sublist_shorten)
  with q show "sublist (js ''id='' @ ident) h \<or>
     sublist (js ''id='' @ [0x22] @ ident) h \<or>
     sublist (js ''id='' @ [0x27] @ ident) h"
    by auto
next
  have hit: "sublist (js ''id='' @ q @ ident) h \<Longrightarrow> regex_test (regexNotFoundPageID builtin ident) h"
    if "q \<in> {[], [0x22], [0x27::nat]}" for q
  proof -
    assume m: "sublist (js ''id='' @ q @ ident) h"
    have "js ''id='' @ q @ ident @ [] \<in> lang (regexNotFoundPageID builtin ident)"
      unfolding lang_regexNotFoundPageID [OF plain] using that by blast
    with m show ?thesis
      unfolding regex_test_iff by force
  qed
  assume "sublist (js ''id='' @ ident) h \<or>
     sublist (js ''id='' @ [0x22] @ ident) h \<or>
     sublist (js ''id='' @ [0x27] @ ident) h"
  then show "regex_test (regexNotFoundPageID builtin ident) h"
    using hit [of "[]"] hit [of "[0x22]"] hit [of "[0x27]"] by auto
qed

lemma lang_any_but_separators:
  "lang (Rep (Alt dot (one_of [0x0D, 0x0A]))) =
     {w. \<forall>c \<in> set w. c \<noteq> 0x2028 \<and> c \<noteq> 0x2029}"
proof -
  have "lang (Alt dot (one_of [0x0D, 0x0A])) = {[c] | c. c \<noteq> 0x2028 \<and> c \<noteq> 0x2029}"
    by (auto simp: dot_def one_of_def)
  then show ?thesis
    by (simp add: rep_lang_classes)
qed

lemma regexJsonObject_test:
  "regex_test_anchored regexJsonObject b \<longleftrightarrow>
     (\<exists>m. b = 0x7B # m @ [0x7D] \<and> (\<forall>c \<in> set m. c \<noteq> 0x2028 \<and> c \<noteq> 0x2029))"
  unfolding regex_test_anchored_def accepts_lang regexJsonObject_def lang.simps(5) lang_lit
    lang_any_but_separators cat_lang_def
  by (auto simp: js_simps)

lemma regexJsonObject_shape:
  "regex_test_anchored regexJsonObject body \<longleftrightarrow>
     spec_json_object_shape body \<and> (\<forall>c \<in> set body. c \<noteq> 0x2028 \<and> c \<noteq> 0x2029)"
proof
  assume "regex_test_anchored regexJsonObject body"
  then obtain m where "body = 0x7B # m @ [0x7D]" "\<forall>c \<in> set m. c \<noteq> 0x2028 \<and> c \<noteq> 0x2029"
    unfolding regexJsonObject_test by blast
  then show "spec_json_object_shape body \<and> (\<forall>c \<in> set body. c \<noteq> 0x2028 \<and> c \<noteq> 0x2029)"
    by (auto simp: spec_json_object_shape_def)
next
  assume a: "spec_json_object_shape body \<and> (\<forall>c \<in> set body. c \<noteq> 0x2028 \<and> c \<noteq> 0x2029)"
  then obtain t where t: "body = 0x7B # t"
    by (cases body) (auto simp: spec_json_object_shape_def)
  with a have "t \<noteq> []" and "last t = 0x7D"
    by (auto simp: spec_json_object_shape_def split: if_splits)
  then have "t = butlast t @ [0x7D]"
    by (metis append_butlast_last_id)
  with t have "body = 0x7B # butlast t @ [0x7D]" by simp
  moreover from a t have "\<forall>c \<in> set (butlast t). c \<noteq> 0x2028 \<and> c \<noteq> 0x2029"
    by (auto dest: in_set_butlastD)
  ultimately show "regex_test_anchored regexJsonObject body"
    unfolding regexJsonObject_test by blast
qed

lemma notFoundStatus_marker:
  assumes "plain_identifier ident"
  shows "notFoundStatus (regexNotFoundPageID builtin ident) h =
           (if marker_text ident h then 404 else 200)"
  by (auto simp: notFoundStatus_def marker_text_def regexNotFoundPageID_test [OF assms] js_simps)

lemma spec_sentinel_marker_text: "spec_sentinel_marker ident h \<Longrightarrow> marker_text ident h"
proof -
  assume "spec_sentinel_marker ident h"
  then have "sublist ((js ''id=\"'' @ ident) @ js ''\"'') h"
    by (simp add: spec_sentinel_marker_def)
  then have "sublist (js ''id=\"'' @ ident) h" by (rule sublist_shorten)
  then show ?thesis by (simp add: marker_text_def)
qed

section \<open>The steps of the handler\<close>

text \<open>
  What each piece of the handler returns and which calls it adds, piece by piece; the
  claims below are put together from these.
\<close>

lemma store_emit: "store (emit e w) = store w"
  by (simp add: emit_def)

lemma trace_emit: "trace (emit e w) = trace w @ [e]"
  by (simp add: emit_def)

lemma fetchData_total: "\<exists>r. fetchData J f i q = Inr r"
  by (auto simp: fetchData_def try_catch_def split: sum.splits)

lemma crawlByExternal_cases:
  assumes "crawlByExternal env s u w = (st, h, w1)"
  shows "(\<not> truthy (ServerConfig_crawler env) \<and> st = 200 \<and> h = Str [] \<and> w1 = w) \<or>
         (\<exists>endpoint. ServerConfig_crawler env = Some endpoint \<and> endpoint \<noteq> [] \<and>
            fetchData (JSON_parse env) (fetch env) endpoint (Some (requestParams env s u)) =
              Inr (Fetched st h) \<and>
            w1 = emit (CrawlFetch endpoint (requestParams env s u)) w)"
proof (cases "ServerConfig_crawler env")
  case None
  with assms show ?thesis by (simp add: crawlByExternal_def truthy_def)
next
  case (Some endpoint)
  show ?thesis
  proof (cases "endpoint = []")
    case True
    with Some assms show ?thesis by (simp add: crawlByExternal_def truthy_def)
  next
    case False
    obtain r where r: "fetchData (JSON_parse env) (fetch env) endpoint
        (Some (requestParams env s u)) = Inr r"
      using fetchData_total by blast
    with Some False assms show ?thesis
      by (cases r) (auto simp: crawlByExternal_def)
  qed
qed

lemma crawlByExternal_status:
  assumes "crawlByExternal env s u w = (st, h, w1)"
  shows "(\<not> truthy (ServerConfig_crawler env) \<and> externalStatus env s u = None \<and> w1 = w) \<or>
         (truthy (ServerConfig_crawler env) \<and> externalStatus env s u = Some st \<and>
            (\<exists>endpoint. w1 = emit (CrawlFetch endpoint (requestParams env s u)) w))"
  using crawlByExternal_cases [OF assms]
  by (auto simp: externalStatus_def truthy_def split: option.splits)

lemma readContent_Inr:
  assumes "readContent pat page k st w = Inr (st', h', w')"
  shows "\<exists>h. page_content page k = Inr h \<and> h' = Str h \<and> w' = emit PageClose w \<and>
           st' = notFoundStatus pat h"
  using assms by (auto simp: readContent_def split: sum.splits option.splits)

lemma readContent_Inl:
  assumes "readContent pat page k st w = Inl (r, w')"
  shows "r = Fulfilled None \<and> (w' = w \<or> w' = emit PageClose w)"
  using assms by (auto simp: readContent_def split: sum.splits option.splits)

lemma crawlByBrowser_Inr_read:
  assumes "crawlByBrowser env param rest st w = Inr x"
  shows "\<exists>page k st0. browserManager_newPage env = Some page \<and>
           readContent (regexNotFoundPageID (RegExp env) (NOT_FOUND_PAGE_ID env))
             page k st0 (emit NewPage w) = Inr x"
  using assms
  by (auto simp: crawlByBrowser_def split: option.splits promise.splits prod.splits if_splits)

lemma crawlByBrowser_Inr:
  assumes "crawlByBrowser env param rest st w = Inr (st', h', w')"
  shows "\<exists>page k h. browserManager_newPage env = Some page \<and> page_content page k = Inr h \<and>
           h' = Str h \<and> w' = emit PageClose (emit NewPage w) \<and>
           st' = notFoundStatus (regexNotFoundPageID (RegExp env) (NOT_FOUND_PAGE_ID env)) h"
proof -
  from crawlByBrowser_Inr_read [OF assms] obtain page k st0 where
    "browserManager_newPage env = Some page"
    "readContent (regexNotFoundPageID (RegExp env) (NOT_FOUND_PAGE_ID env)) page k st0
       (emit NewPage w) = Inr (st', h', w')"
    by blast
  with readContent_Inr [of "regexNotFoundPageID (RegExp env) (NOT_FOUND_PAGE_ID env)" page k st0
      "emit NewPage w" st' h' w']
  show ?thesis by blast
qed

lemma closeAfterError_world: "snd (closeAfterError page w) = emit PageClose w"
  by (simp add: closeAfterError_def split: option.splits)

lemma crawlByBrowser_no_page:
  "browserManager_newPage env = None \<Longrightarrow>
   crawlByBrowser env param rest st w =
     Inl (if \<not> isFirstRequest param then serveStale env (url param) (emit NewPage w)
          else (Fulfilled None, emit NewPage w))"
  by (simp add: crawlByBrowser_def)

lemma crawlByBrowser_page_Inl:
  assumes "browserManager_newPage env = Some page"
    and "crawlByBrowser env param rest st w = Inl (r, w')"
  shows "w' = emit NewPage w \<or> w' = emit PageClose (emit NewPage w)"
proof -
  have rc: "\<And>k st0. readContent (regexNotFoundPageID (RegExp env) (NOT_FOUND_PAGE_ID env)) page k st0
      (emit NewPage w) = Inl (r, w') \<Longrightarrow> ?thesis"
    using readContent_Inl by blast
  have ce: "closeAfterError page (emit NewPage w) = (r, w') \<Longrightarrow> ?thesis"
    using closeAfterError_world [of page "emit NewPage w"] by simp
  from assms show ?thesis
    unfolding crawlByBrowser_def
    by (simp split: option.splits promise.splits prod.splits if_splits add: rc ce)
qed

lemma serveStale_world:
  "trace (snd (serveStale env u w)) = trace w @ [CacheAchieve u]"
  "store (snd (serveStale env u w)) = snd (cacheManager_achieve env u (store w))"
  "fst (serveStale env u w) = Fulfilled (fst (cacheManager_achieve env u (store w)))"
  by (simp_all add: serveStale_def emit_def split: prod.splits)

text \<open>
  When the browser render ends the call, it has asked for one page handle and made no
  other acquisition and no change to the cache.
\<close>

lemma crawlByBrowser_Inl_trace:
  assumes "crawlByBrowser env param rest st w = Inl (r, w')"
  shows "\<exists>evs. trace w' = trace w @ NewPage # evs \<and>
           (\<forall>e \<in> set evs. \<not> is_acquisition e \<and> \<not> is_cache_mutation e)"
proof (cases "browserManager_newPage env")
  case None
  with assms have "(r, w') = (if \<not> isFirstRequest param
      then serveStale env (url param) (emit NewPage w) else (Fulfilled None, emit NewPage w))"
    by (simp add: crawlByBrowser_no_page)
  then have "trace w' = trace w @ [NewPage] \<or> trace w' = trace w @ [NewPage, CacheAchieve (url param)]"
    using serveStale_world(1) [of env "url param" "emit NewPage w"]
    by (auto simp: trace_emit split: if_splits dest: arg_cong [where f = snd])
  then show ?thesis by auto
next
  case (Some page)
  from crawlByBrowser_page_Inl [OF Some assms]
  have "trace w' = trace w @ [NewPage] \<or> trace w' = trace w @ [NewPage, PageClose]"
    by (auto simp: trace_emit)
  then show ?thesis by auto
qed

lemma cacheResult_uncacheable:
  "\<not> CACHEABLE_STATUS_CODE st \<Longrightarrow>
   cacheResult env u started st h w =
     (Fulfilled (Some \<lparr>status = st,
                       html = Some (if st = 404 then Str (js ''Page not found!'') else h)\<rparr>),
      emit (CacheRemove u) (w\<lparr>store := cacheManager_remove env u (store w)\<rparr>))"
  by (simp add: cacheResult_def)

lemma cacheResult_optimizer_throws:
  "CACHEABLE_STATUS_CODE st \<Longrightarrow> optimizeContent env h True = Inl err \<Longrightarrow>
   cacheResult env u started st h w =
     (Fulfilled None, emit PoolTerminate (emit (PoolExec h) w))"
  by (simp add: cacheResult_def)

lemma cacheResult_written:
  "CACHEABLE_STATUS_CODE st \<Longrightarrow> optimizeContent env h True = Inr optimized \<Longrightarrow>
   cacheResult env u started st h w =
     (Fulfilled (fst (cacheManager_set env u optimized True (store w))),
      emit (CacheSet u optimized) (emit PoolTerminate (emit (PoolExec h)
        (w\<lparr>store := snd (cacheManager_set env u optimized True (store w))\<rparr>))))"
  by (simp add: cacheResult_def split: prod.splits)

lemma cacheResult_trace:
  "\<exists>evs. trace (snd (cacheResult env u started st h w)) = trace w @ evs \<and>
         (\<forall>e \<in> set evs. \<not> is_acquisition e)"
proof (cases "CACHEABLE_STATUS_CODE st")
  case False
  then show ?thesis by (simp add: cacheResult_uncacheable trace_emit)
next
  case True
  then show ?thesis
    by (cases "optimizeContent env h True")
      (simp_all add: cacheResult_optimizer_throws cacheResult_written trace_emit)
qed

text \<open>
  The two budget checks: past both, the handler is the acquisition and what follows it;
  at the first it returns nothing, whatever the request; only at the second does it
  fall back to the stale entry.
\<close>

lemma ISRHandler_within_budget:
  assumes "0 < getRestOfDuration (DURATION_TIMEOUT env) (Date_now env 1) (Date_now env 0)
             gapDurationDefault"
    and "0 < getRestOfDuration (DURATION_TIMEOUT env) (Date_now env 2) (Date_now env 0)
             gapDurationDefault"
  shows "ISRHandler env param w =
           generatePage env param (Date_now env 0)
             (getRestOfDuration (DURATION_TIMEOUT env) (Date_now env 2) (Date_now env 0)
                gapDurationDefault) w"
  using assms by (simp add: ISRHandler_def Let_def)

lemma ISRHandler_first_check:
  "budget_check env 1 \<le> 0 \<Longrightarrow> ISRHandler env param w = (Fulfilled None, w)"
  by (simp add: ISRHandler_def)

lemma ISRHandler_second_check:
  "0 < budget_check env 1 \<Longrightarrow> budget_check env 2 \<le> 0 \<Longrightarrow> \<not> isFirstRequest param \<Longrightarrow>
   ISRHandler env param w = serveStale env (url param) w"
  by (simp add: ISRHandler_def)

text \<open>
  An acquisition that hands a status and a document on has left the store as it was and
  has called neither \<open>set\<close> nor \<open>remove\<close>.
\<close>

lemma acquire_Inr_world:
  assumes "acquire env param started rest w = Inr (st, h, w2)"
  shows "store w2 = store w \<and>
         (\<exists>evs. trace w2 = trace w @ evs \<and> (\<forall>e \<in> set evs. \<not> is_cache_mutation e))"
proof -
  obtain st1 h1 w1 where c: "crawlByExternal env started (url param) w = (st1, h1, w1)"
    by (metis prod_cases3)
  from crawlByExternal_cases [OF c]
  have w1: "store w1 = store w \<and>
      (\<exists>evs. trace w1 = trace w @ evs \<and> (\<forall>e \<in> set evs. \<not> is_cache_mutation e))"
    by (auto simp: store_emit trace_emit)
  show ?thesis
  proof (cases "\<not> truthy (ServerConfig_crawler env) \<or> st1 = 500")
    case False
    with assms c have "w2 = w1" by (simp add: acquire_def)
    with w1 show ?thesis by simp
  next
    case True
    with assms c have "crawlByBrowser env param rest st1 w1 = Inr (st, h, w2)"
      by (simp add: acquire_def)
    from crawlByBrowser_Inr [OF this]
    have "w2 = emit PageClose (emit NewPage w1)" by blast
    with w1 show ?thesis by (auto simp: store_emit trace_emit)
  qed
qed

lemma acquire_no_page:
  assumes "\<not> truthy (ServerConfig_crawler env) \<or> externalStatus env started (url param) = Some 500"
    and "browserManager_newPage env = None"
  shows "\<exists>w1. acquire env param started rest w =
           Inl (if \<not> isFirstRequest param then serveStale env (url param) (emit NewPage w1)
                else (Fulfilled None, emit NewPage w1)) \<and>
           store w1 = store w \<and>
           (\<exists>evs. trace w1 = trace w @ evs \<and> (\<forall>e \<in> set evs. \<not> is_cache_mutation e))"
proof -
  obtain st1 h1 w1 where c: "crawlByExternal env started (url param) w = (st1, h1, w1)"
    by (metis prod_cases3)
  from crawlByExternal_status [OF c] assms(1)
  have "\<not> truthy (ServerConfig_crawler env) \<or> st1 = 500" by auto
  with c assms(2) have "acquire env param started rest w =
      Inl (if \<not> isFirstRequest param then serveStale env (url param) (emit NewPage w1)
           else (Fulfilled None, emit NewPage w1))"
    by (simp add: acquire_def crawlByBrowser_no_page)
  moreover from crawlByExternal_status [OF c]
  have "store w1 = store w \<and>
      (\<exists>evs. trace w1 = trace w @ evs \<and> (\<forall>e \<in> set evs. \<not> is_cache_mutation e))"
    by (auto simp: store_emit trace_emit)
  ultimately show ?thesis by blast
qed

text \<open>Counting the page handles asked for, and the first call of the acquisition.\<close>

lemma no_acquisition_count:
  "\<forall>e \<in> set evs. \<not> is_acquisition e \<Longrightarrow> count_list evs NewPage = 0"
  by (induction evs) auto

lemma crawlByExternal_count:
  assumes "crawlByExternal env s u w = (st, h, w1)"
  shows "\<exists>evs. trace w1 = trace w @ evs \<and> count_list evs NewPage = 0 \<and>
           (evs = [] \<longleftrightarrow> \<not> truthy (ServerConfig_crawler env)) \<and>
           (\<forall>e \<in> set evs. is_acquisition e)"
  using crawlByExternal_status [OF assms] by (auto simp: trace_emit)

lemma generatePage_count:
  "count_list (new_events w (snd (generatePage env param started rest w))) NewPage =
     (if \<not> truthy (ServerConfig_crawler env) \<or>
         externalStatus env started (url param) = Some 500 then 1 else 0)"
proof -
  obtain st1 h1 w1 where c: "crawlByExternal env started (url param) w = (st1, h1, w1)"
    by (metis prod_cases3)
  from crawlByExternal_count [OF c] obtain evs1 where
    e1: "trace w1 = trace w @ evs1" "count_list evs1 NewPage = 0" by blast
  from crawlByExternal_status [OF c]
  have cond: "(\<not> truthy (ServerConfig_crawler env) \<or> st1 = 500) \<longleftrightarrow>
      (\<not> truthy (ServerConfig_crawler env) \<or> externalStatus env started (url param) = Some 500)"
    by auto
  show ?thesis
  proof (cases "\<not> truthy (ServerConfig_crawler env) \<or> st1 = 500")
    case False
    then have g: "generatePage env param started rest w =
        cacheResult env (url param) started st1 h1 w1"
      using c by (simp add: generatePage_def acquire_def)
    from cacheResult_trace [of env "url param" started st1 h1 w1] obtain evs where
      "trace (snd (cacheResult env (url param) started st1 h1 w1)) = trace w1 @ evs"
      "\<forall>e \<in> set evs. \<not> is_acquisition e" by blast
    with e1 g have "new_events w (snd (generatePage env param started rest w)) = evs1 @ evs"
      and "count_list evs NewPage = 0"
      by (simp_all add: new_events_def no_acquisition_count)
    with e1 False cond show ?thesis by simp
  next
    case True
    then have a: "acquire env param started rest w = crawlByBrowser env param rest st1 w1"
      using c by (simp add: acquire_def)
    show ?thesis
    proof (cases "crawlByBrowser env param rest st1 w1")
      case (Inl fin)
      obtain r w' where fin: "fin = (r, w')" by (cases fin)
      from crawlByBrowser_Inl_trace [OF Inl [unfolded fin]] obtain evs where
        "trace w' = trace w1 @ NewPage # evs" "\<forall>e \<in> set evs. \<not> is_acquisition e"
        by blast
      moreover have "generatePage env param started rest w = (r, w')"
        using a Inl fin by (simp add: generatePage_def)
      ultimately have "new_events w (snd (generatePage env param started rest w)) =
          evs1 @ NewPage # evs" and "count_list evs NewPage = 0"
        using e1 by (simp_all add: new_events_def no_acquisition_count)
      with e1 True cond show ?thesis by simp
    next
      case (Inr cont)
      obtain st2 h2 w2 where cont: "cont = (st2, h2, w2)" by (cases cont)
      from crawlByBrowser_Inr [OF Inr [unfolded cont]]
      have w2: "trace w2 = trace w1 @ [NewPage, PageClose]"
        by (auto simp: trace_emit)
      have g: "generatePage env param started rest w =
          cacheResult env (url param) started st2 h2 w2"
        using a Inr cont by (simp add: generatePage_def)
      from cacheResult_trace [of env "url param" started st2 h2 w2] obtain evs where
        "trace (snd (cacheResult env (url param) started st2 h2 w2)) = trace w2 @ evs"
        "\<forall>e \<in> set evs. \<not> is_acquisition e" by blast
      with e1 w2 g have "new_events w (snd (generatePage env param started rest w)) =
          evs1 @ [NewPage, PageClose] @ evs" and "count_list evs NewPage = 0"
        by (simp_all add: new_events_def no_acquisition_count)
      with e1 True cond show ?thesis by simp
    qed
  qed
qed

lemma param_fields:
  "url (param\<lparr>startGenerating := s\<rparr>) = url param"
  "isFirstRequest (param\<lparr>startGenerating := s\<rparr>) = isFirstRequest param"
  by simp_all

lemma generatePage_param:
  "generatePage env (param\<lparr>startGenerating := s\<rparr>) started rest w =
   generatePage env param started rest w"
  unfolding generatePage_def acquire_def crawlByBrowser_def param_fields
  by (rule refl)

lemma ISRHandler_param:
  "ISRHandler env (param\<lparr>startGenerating := s\<rparr>) w = ISRHandler env param w"
  unfolding ISRHandler_def generatePage_param param_fields
  by (rule refl)

lemma generatePage_starts_acquisition:
  "\<exists>e evs. new_events w (snd (generatePage env param started rest w)) = e # evs \<and>
           is_acquisition e"
proof -
  obtain st1 h1 w1 where c: "crawlByExternal env started (url param) w = (st1, h1, w1)"
    by (metis prod_cases3)
  show ?thesis
  proof (cases "truthy (ServerConfig_crawler env)")
    case True
    with crawlByExternal_status [OF c] obtain endpoint where
      w1: "trace w1 = trace w @ [CrawlFetch endpoint (requestParams env started (url param))]"
      by (auto simp: trace_emit)
    have "\<exists>evs. trace (snd (generatePage env param started rest w)) = trace w1 @ evs"
    proof (cases "acquire env param started rest w")
      case (Inl fin)
      obtain r w' where fin: "fin = (r, w')" by (cases fin)
      with Inl c have "crawlByBrowser env param rest st1 w1 = Inl (r, w')"
        by (simp add: acquire_def split: if_splits)
      from crawlByBrowser_Inl_trace [OF this] Inl fin show ?thesis
        by (auto simp: generatePage_def)
    next
      case (Inr cont)
      obtain st2 h2 w2 where cont: "cont = (st2, h2, w2)" by (cases cont)
      have "\<exists>evs. trace w2 = trace w1 @ evs"
      proof (cases "\<not> truthy (ServerConfig_crawler env) \<or> st1 = 500")
        case True
        with Inr cont c have "crawlByBrowser env param rest st1 w1 = Inr (st2, h2, w2)"
          by (simp add: acquire_def)
        from crawlByBrowser_Inr [OF this] show ?thesis by (auto simp: trace_emit)
      next
        case False
        with Inr cont c show ?thesis by (simp add: acquire_def)
      qed
      with cacheResult_trace [of env "url param" started st2 h2 w2] Inr cont show ?thesis
        by (auto simp: generatePage_def)
    qed
    with w1 show ?thesis by (auto simp: new_events_def)
  next
    case False
    with crawlByExternal_status [OF c] have w1: "w1 = w" by auto
    from False c w1 have a: "acquire env param started rest w = crawlByBrowser env param rest st1 w"
      by (simp add: acquire_def)
    have "\<exists>evs. trace (snd (generatePage env param started rest w)) = trace w @ NewPage # evs"
    proof (cases "crawlByBrowser env param rest st1 w")
      case (Inl fin)
      obtain r w' where fin: "fin = (r, w')" by (cases fin)
      from crawlByBrowser_Inl_trace [OF Inl [unfolded fin]] a Inl fin show ?thesis
        by (auto simp: generatePage_def)
    next
      case (Inr cont)
      obtain st2 h2 w2 where cont: "cont = (st2, h2, w2)" by (cases cont)
      from crawlByBrowser_Inr [OF Inr [unfolded cont]]
      have "trace w2 = trace w @ [NewPage, PageClose]" by (auto simp: trace_emit)
      with cacheResult_trace [of env "url param" started st2 h2 w2] a Inr cont show ?thesis
        by (auto simp: generatePage_def)
    qed
    then show ?thesis by (auto simp: new_events_def)
  qed
qed

section \<open>The sample runs\<close>

lemma plain_default: "plain_identifier default_NOT_FOUND_PAGE_ID"
  by (simp add: plain_identifier_def default_NOT_FOUND_PAGE_ID_def regex_special_def js_simps)

lemma marker_doc_not_found: "marker_text default_NOT_FOUND_PAGE_ID doc_not_found"
  by (simp add: marker_text_def default_NOT_FOUND_PAGE_ID_def doc_not_found_def js_simps
      sublist_code)

lemma sentinel_doc_not_found: "spec_sentinel_marker default_NOT_FOUND_PAGE_ID doc_not_found"
  by (simp add: spec_sentinel_marker_def default_NOT_FOUND_PAGE_ID_def doc_not_found_def
      js_simps sublist_code)

lemma marker_doc_longer_id: "marker_text default_NOT_FOUND_PAGE_ID doc_longer_id"
  by (simp add: marker_text_def default_NOT_FOUND_PAGE_ID_def doc_longer_id_def js_simps
      sublist_code)

lemma no_sentinel_doc_longer_id:
  "\<not> spec_sentinel_marker default_NOT_FOUND_PAGE_ID doc_longer_id"
  by (simp add: spec_sentinel_marker_def default_NOT_FOUND_PAGE_ID_def doc_longer_id_def
      js_simps sublist_code)

lemma no_marker_doc_plain: "\<not> marker_text default_NOT_FOUND_PAGE_ID doc_plain"
  by (simp add: marker_text_def default_NOT_FOUND_PAGE_ID_def doc_plain_def js_simps
      sublist_code)

lemma status_not_found:
  "notFoundStatus (regexNotFoundPageID builtin default_NOT_FOUND_PAGE_ID) doc_not_found = 404"
  by (simp add: notFoundStatus_marker [OF plain_default] marker_doc_not_found)

lemma status_longer_id:
  "notFoundStatus (regexNotFoundPageID builtin default_NOT_FOUND_PAGE_ID) doc_longer_id = 404"
  by (simp add: notFoundStatus_marker [OF plain_default] marker_doc_longer_id)

lemma status_plain:
  "notFoundStatus (regexNotFoundPageID builtin default_NOT_FOUND_PAGE_ID) doc_plain = 200"
  by (simp add: notFoundStatus_marker [OF plain_default] no_marker_doc_plain)

text \<open>A page that loads and serializes to \<open>doc\<close> takes the browser render to its end.\<close>

lemma crawlByBrowser_rendering:
  assumes "browserManager_newPage env = Some (page_rendering doc)"
  shows "crawlByBrowser env param rest st w =
           Inr (notFoundStatus (regexNotFoundPageID (RegExp env) (NOT_FOUND_PAGE_ID env)) doc,
                Str doc,
                emit PageClose (emit NewPage w))"
  using assms
  by (simp add: crawlByBrowser_def waitResponse_def readContent_def page_rendering_def)

lemma acquire_rendering:
  assumes "\<not> truthy (ServerConfig_crawler env)"
    and "browserManager_newPage env = Some (page_rendering doc)"
  shows "acquire env param started rest w =
           Inr (notFoundStatus (regexNotFoundPageID (RegExp env) (NOT_FOUND_PAGE_ID env)) doc,
                Str doc,
                emit PageClose (emit NewPage w))"
proof -
  from assms(1) have "crawlByExternal env started (url param) w = (200, Str [], w)"
    by (simp add: crawlByExternal_def truthy_def split: option.splits)
  with assms show ?thesis
    by (simp add: acquire_def crawlByBrowser_rendering)
qed

lemma env_renders_fields:
  "\<not> truthy (ServerConfig_crawler (env_renders doc))"
  "browserManager_newPage (env_renders doc) = Some (page_rendering doc)"
  "NOT_FOUND_PAGE_ID (env_renders doc) = default_NOT_FOUND_PAGE_ID"
  by (simp_all add: env_renders_def sample_env_def truthy_def)

lemma env_optimizer_fails_fields:
  "\<not> truthy (ServerConfig_crawler env_optimizer_fails)"
  "browserManager_newPage env_optimizer_fails = Some (page_rendering doc_plain)"
  "NOT_FOUND_PAGE_ID env_optimizer_fails = default_NOT_FOUND_PAGE_ID"
  "optimizeContent env_optimizer_fails h deep = Inl (JSError (js ''Error''))"
  by (simp_all add: env_optimizer_fails_def sample_env_def truthy_def)

lemma budget_sample: "0 < budget_check sample_env 1" "0 < budget_check sample_env 2"
  by (simp_all add: sample_env_def getRestOfDuration_def gapDurationDefault_def)

lemma budget_renders: "0 < budget_check (env_renders doc) 1" "0 < budget_check (env_renders doc) 2"
  by (simp_all add: env_renders_def sample_env_def getRestOfDuration_def gapDurationDefault_def)

lemma budget_optimizer_fails:
  "0 < budget_check env_optimizer_fails 1" "0 < budget_check env_optimizer_fails 2"
  by (simp_all add: env_optimizer_fails_def sample_env_def getRestOfDuration_def
      gapDurationDefault_def)

lemma budget_external_403:
  "0 < budget_check env_external_403 1" "0 < budget_check env_external_403 2"
  by (simp_all add: env_external_403_def sample_env_def getRestOfDuration_def
      gapDurationDefault_def)

lemma budget_crawler_down:
  "0 < budget_check env_crawler_down 1" "0 < budget_check env_crawler_down 2"
  by (simp_all add: env_crawler_down_def sample_env_def getRestOfDuration_def
      gapDurationDefault_def)

lemma budget_no_page: "0 < budget_check env_no_page 1" "0 < budget_check env_no_page 2"
  by (simp_all add: env_no_page_def sample_env_def getRestOfDuration_def gapDurationDefault_def)

lemma fetchData_403:
  "fetchData (\<lambda>body. Inl (JSError (js ''SyntaxError'')))
     (\<lambda>input reqData. FetchResponds 403 (Inr (js ''denied''))) endpoint reqData =
   Inr (Fetched 403 (Str (js ''denied'')))"
  by (simp add: fetchData_def fetchData_body_def try_catch_def regexJsonObject_shape
      spec_json_object_shape_def js_simps)

lemma env_external_403_crawl:
  "ServerConfig_crawler env_external_403 = Some (js ''http://crawler'')"
  "fetchData (JSON_parse env_external_403) (fetch env_external_403) (js ''http://crawler'')
     reqData = Inr (Fetched 403 (Str (js ''denied'')))"
  using fetchData_403 by (simp_all add: env_external_403_def sample_env_def)

lemma acquire_external_403:
  "acquire env_external_403 param started rest w =
     Inr (403, Str (js ''denied''),
          emit (CrawlFetch (js ''http://crawler'')
                  (requestParams env_external_403 started (url param))) w)"
  by (simp add: acquire_def crawlByExternal_def truthy_def js_not_Nil env_external_403_crawl)

lemma externalStatus_403: "externalStatus env_external_403 started u = Some 403"
  by (simp add: externalStatus_def js_not_Nil env_external_403_crawl)

lemma externalStatus_down: "externalStatus env_crawler_down started u = Some 500"
  by (simp add: externalStatus_def env_crawler_down_def sample_env_def js_not_Nil
      fetchData_def fetchData_body_def try_catch_def)

section \<open>The claims\<close>

subsection \<open>C1: the stale fallback at an exhausted budget\<close>

text \<open>
  C1 states that a call which is not the first request for its URL and finds the budget
  with the 1500 ms gap exhausted returns what \<open>achieve(url)\<close> returns, without any
  acquisition. The run below has \<open>DURATION_TIMEOUT\<close> configured to 1000 ms, so the budget is
  exhausted from the first reading on; it is not the first request and the store holds an
  entry for the URL, which \<open>achieve\<close> would return. The handler returns nothing and
  leaves the state untouched: the check at entry returns before the fallback, which
  stands behind the second check, can be reached.
\<close>

theorem C1_budget_exhausted_returns_nothing:
  "\<not> isFirstRequest sample_param \<and>
   budget_check env_short_timeout 1 \<le> 0 \<and>
   fst (cacheManager_achieve env_short_timeout (url sample_param) (store sample_world)) =
     Some \<lparr>status = 200, html = Some (Str (js ''<p>old</p>''))\<rparr> \<and>
   ISRHandler env_short_timeout sample_param sample_world = (Fulfilled None, sample_world)"
  by (simp add: env_short_timeout_def sample_env_def sample_param_def sample_world_def
      ISRHandler_def getRestOfDuration_def gapDurationDefault_def spec_achieve_def)

subsection \<open>C2: a status outside the cacheable set\<close>

text \<open>
  C2: when a call reaches the classification with a status outside \<open>{200, 302}\<close>, it returns
  that status with \<open>'Page not found!'\<close> for 404 and with the acquired document otherwise;
  the store it leaves is the one \<open>remove(url)\<close> makes of the store it found, \<open>remove\<close> is
  among the calls made, and \<open>set\<close> is not.
\<close>

theorem C2_uncacheable_status:
  assumes "0 < budget_check env 1" and "0 < budget_check env 2"
    and "acquire env param (Date_now env 0) (budget_check env 2) w = Inr (st, h, w2)"
    and "\<not> CACHEABLE_STATUS_CODE st"
  shows "fst (ISRHandler env param w) =
           Fulfilled (Some \<lparr>status = st,
             html = Some (if st = 404 then Str (js ''Page not found!'') else h)\<rparr>) \<and>
         store (snd (ISRHandler env param w)) = cacheManager_remove env (url param) (store w) \<and>
         CacheRemove (url param) \<in> set (new_events w (snd (ISRHandler env param w))) \<and>
         (\<forall>e \<in> set (new_events w (snd (ISRHandler env param w))). \<not> is_cache_write e)"
proof -
  from acquire_Inr_world [OF assms(3)] obtain evs where
    w2: "store w2 = store w" "trace w2 = trace w @ evs" "\<forall>e \<in> set evs. \<not> is_cache_mutation e"
    by blast
  have nw: "\<forall>e \<in> set evs. \<not> is_cache_write e"
  proof
    fix e assume "e \<in> set evs"
    with w2(3) have "\<not> is_cache_mutation e" by blast
    then show "\<not> is_cache_write e" by (cases e) simp_all
  qed
  have "ISRHandler env param w =
      cacheResult env (url param) (Date_now env 0) st h w2"
    using assms(1,2,3) by (simp add: ISRHandler_within_budget generatePage_def)
  with assms(4) w2 nw show ?thesis
    by (simp add: cacheResult_uncacheable new_events_def store_emit trace_emit emit_def)
qed

text \<open>
  Two runs for C2 on the sample store, which holds an entry for the URL: an external crawl
  answering 403 with the text \<open>denied\<close>, and a browser render of a document carrying the
  marker. Afterwards the store has no entry for the URL.
\<close>

theorem C2_witness:
  "0 < budget_check env_external_403 1 \<and> 0 < budget_check env_external_403 2 \<and>
   \<not> CACHEABLE_STATUS_CODE 403 \<and>
   fst (ISRHandler env_external_403 sample_param sample_world) =
     Fulfilled (Some \<lparr>status = 403, html = Some (Str (js ''denied''))\<rparr>) \<and>
   map_of (store (snd (ISRHandler env_external_403 sample_param sample_world)))
     (url sample_param) = None \<and>
   0 < budget_check (env_renders doc_not_found) 1 \<and>
   0 < budget_check (env_renders doc_not_found) 2 \<and>
   \<not> CACHEABLE_STATUS_CODE 404 \<and>
   fst (ISRHandler (env_renders doc_not_found) sample_param sample_world) =
     Fulfilled (Some \<lparr>status = 404, html = Some (Str (js ''Page not found!''))\<rparr>) \<and>
   map_of (store (snd (ISRHandler (env_renders doc_not_found) sample_param sample_world)))
     (url sample_param) = None"
proof -
  have n: "\<not> CACHEABLE_STATUS_CODE 403" "\<not> CACHEABLE_STATUS_CODE 404"
    by (simp_all add: CACHEABLE_STATUS_CODE_def)
  have r: "map_of (cacheManager_remove env_external_403 (url sample_param) (store sample_world))
             (url sample_param) = None"
    "map_of (cacheManager_remove (env_renders doc_not_found) (url sample_param)
             (store sample_world)) (url sample_param) = None"
    by (simp_all add: env_external_403_def env_renders_def sample_env_def sample_world_def
        spec_remove_def)
  have a: "acquire (env_renders doc_not_found) sample_param
      (Date_now (env_renders doc_not_found) 0) (budget_check (env_renders doc_not_found) 2)
      sample_world = Inr (404, Str doc_not_found, emit PageClose (emit NewPage sample_world))"
    using acquire_rendering [OF env_renders_fields(1,2)]
    by (simp add: env_renders_fields(3) status_not_found)
  from C2_uncacheable_status [OF budget_external_403 acquire_external_403 n(1)]
    C2_uncacheable_status [OF budget_renders a n(2)]
  show ?thesis
    using budget_external_403 budget_renders n r by simp
qed

subsection \<open>C3: a failing optimizer\<close>

text \<open>
  C3: when a call reaches the optimization (a cacheable status after the acquisition) and
  the job of the worker pool throws, the call returns nothing, the store is as it was
  found, the job is among the calls made and \<open>set\<close> is not.
\<close>

theorem C3_optimizer_failure:
  assumes "0 < budget_check env 1" and "0 < budget_check env 2"
    and "acquire env param (Date_now env 0) (budget_check env 2) w = Inr (st, h, w2)"
    and "CACHEABLE_STATUS_CODE st"
    and "optimizeContent env h True = Inl err"
  shows "fst (ISRHandler env param w) = Fulfilled None \<and>
         store (snd (ISRHandler env param w)) = store w \<and>
         PoolExec h \<in> set (new_events w (snd (ISRHandler env param w))) \<and>
         (\<forall>e \<in> set (new_events w (snd (ISRHandler env param w))). \<not> is_cache_write e)"
proof -
  from acquire_Inr_world [OF assms(3)] obtain evs where
    w2: "store w2 = store w" "trace w2 = trace w @ evs" "\<forall>e \<in> set evs. \<not> is_cache_mutation e"
    by blast
  have nw: "\<forall>e \<in> set evs. \<not> is_cache_write e"
  proof
    fix e assume "e \<in> set evs"
    with w2(3) have "\<not> is_cache_mutation e" by blast
    then show "\<not> is_cache_write e" by (cases e) simp_all
  qed
  have "ISRHandler env param w =
      cacheResult env (url param) (Date_now env 0) st h w2"
    using assms(1,2,3) by (simp add: ISRHandler_within_budget generatePage_def)
  with assms(4,5) w2 nw show ?thesis
    by (simp add: cacheResult_optimizer_throws new_events_def store_emit trace_emit)
qed

text \<open>A run for C3: the browser renders the plain document and the optimizer throws.\<close>

theorem C3_witness:
  "0 < budget_check env_optimizer_fails 1 \<and> 0 < budget_check env_optimizer_fails 2 \<and>
   CACHEABLE_STATUS_CODE 200 \<and>
   optimizeContent env_optimizer_fails (Str doc_plain) True = Inl (JSError (js ''Error'')) \<and>
   fst (ISRHandler env_optimizer_fails sample_param sample_world) = Fulfilled None \<and>
   store (snd (ISRHandler env_optimizer_fails sample_param sample_world)) = store sample_world \<and>
   PoolExec (Str doc_plain)
     \<in> set (new_events sample_world
              (snd (ISRHandler env_optimizer_fails sample_param sample_world))) \<and>
   new_events sample_world (snd (ISRHandler env_optimizer_fails sample_param sample_world)) =
     [NewPage, PageClose, PoolExec (Str doc_plain), PoolTerminate]"
proof -
  have c: "CACHEABLE_STATUS_CODE 200"
    by (simp add: CACHEABLE_STATUS_CODE_def)
  have a: "acquire env_optimizer_fails sample_param (Date_now env_optimizer_fails 0)
      (budget_check env_optimizer_fails 2) sample_world =
      Inr (200, Str doc_plain, emit PageClose (emit NewPage sample_world))"
    using acquire_rendering [OF env_optimizer_fails_fields(1,2)]
    by (simp add: env_optimizer_fails_fields(3) status_plain)
  have "ISRHandler env_optimizer_fails sample_param sample_world =
      (Fulfilled None,
       emit PoolTerminate (emit (PoolExec (Str doc_plain))
         (emit PageClose (emit NewPage sample_world))))"
    by (simp add: ISRHandler_within_budget [OF budget_optimizer_fails] generatePage_def a
        cacheResult_optimizer_throws c env_optimizer_fails_fields(4))
  then have evs: "new_events sample_world
      (snd (ISRHandler env_optimizer_fails sample_param sample_world)) =
      [NewPage, PageClose, PoolExec (Str doc_plain), PoolTerminate]"
    by (simp add: new_events_def trace_emit sample_world_def)
  from C3_optimizer_failure [OF budget_optimizer_fails a c env_optimizer_fails_fields(4)]
  show ?thesis
    using budget_optimizer_fails c env_optimizer_fails_fields(4) evs by blast
qed

subsection \<open>C4: \<open>fetchData\<close> never throws\<close>

text \<open>
  C4: \<open>fetchData\<close> returns a value for every input, and that value is
  \<open>{status: 500, data: ''}\<close> whenever \<open>fetch\<close> rejects, the reading of the body rejects,
  or the body has the shape of an object and \<open>JSON.parse\<close> throws on it.
\<close>

theorem C4_fetchData_catches:
  "(\<exists>r. fetchData parse fetcher input reqData = Inr r) \<and>
   (fetcher input reqData = FetchRejects error \<longrightarrow>
      fetchData parse fetcher input reqData = Inr (Fetched 500 (Str []))) \<and>
   (fetcher input reqData = FetchResponds st (Inl error) \<longrightarrow>
      fetchData parse fetcher input reqData = Inr (Fetched 500 (Str []))) \<and>
   (fetcher input reqData = FetchResponds st (Inr body) \<and>
    regex_test_anchored regexJsonObject body \<and> parse body = Inl error \<longrightarrow>
      fetchData parse fetcher input reqData = Inr (Fetched 500 (Str [])))"
  using fetchData_total [of parse fetcher input reqData]
  by (simp add: fetchData_def fetchData_body_def try_catch_def)

text \<open>
  Three calls for C4: a rejected \<open>fetch\<close>, a body that cannot be read, and the body
  \<open>{oops}\<close>, which has the shape of an object and is not JSON.
\<close>

theorem C4_witness:
  "fetchData (\<lambda>body. Inl (JSError (js ''SyntaxError'')))
     (\<lambda>input reqData. FetchRejects (JSError (js ''TypeError''))) (js ''http://crawler'') None =
     Inr (Fetched 500 (Str [])) \<and>
   fetchData (\<lambda>body. Inl (JSError (js ''SyntaxError'')))
     (\<lambda>input reqData. FetchResponds 200 (Inl (JSError (js ''AbortError''))))
     (js ''http://crawler'') None = Inr (Fetched 500 (Str [])) \<and>
   regex_test_anchored regexJsonObject (js ''{oops}'') \<and>
   fetchData (\<lambda>body. Inl (JSError (js ''SyntaxError'')))
     (\<lambda>input reqData. FetchResponds 200 (Inr (js ''{oops}'')))
     (js ''http://crawler'') None = Inr (Fetched 500 (Str []))"
proof -
  have shape: "regex_test_anchored regexJsonObject (js ''{oops}'')"
    by (simp add: regexJsonObject_shape spec_json_object_shape_def js_simps)
  from C4_fetchData_catches
      [where parse = "\<lambda>body. Inl (JSError (js ''SyntaxError''))"
         and fetcher = "\<lambda>input reqData. FetchRejects (JSError (js ''TypeError''))"
         and input = "js ''http://crawler''" and reqData = None
         and error = "JSError (js ''TypeError'')"]
    C4_fetchData_catches
      [where parse = "\<lambda>body. Inl (JSError (js ''SyntaxError''))"
         and fetcher = "\<lambda>input reqData. FetchResponds 200 (Inl (JSError (js ''AbortError'')))"
         and input = "js ''http://crawler''" and reqData = None and st = 200
         and error = "JSError (js ''AbortError'')"]
    C4_fetchData_catches
      [where parse = "\<lambda>body. Inl (JSError (js ''SyntaxError''))"
         and fetcher = "\<lambda>input reqData. FetchResponds 200 (Inr (js ''{oops}''))"
         and input = "js ''http://crawler''" and reqData = None and st = 200
         and body = "js ''{oops}''" and error = "JSError (js ''SyntaxError'')"]
    shape
  show ?thesis by blast
qed

subsection \<open>C5: when the browser renders\<close>

text \<open>
  C5: in the acquisition (everything the handler does after its budget checks) the
  browser is asked for a page handle once when no crawl endpoint is configured or the
  external crawl returned status 500, and not at all otherwise. For the whole call this
  gives one page handle when both budget checks pass and one of the two holds, and none
  in every other case.
\<close>

theorem C5_browser_path:
  "count_list (new_events w (snd (generatePage env param started rest w))) NewPage =
     (if \<not> truthy (ServerConfig_crawler env) \<or>
         externalStatus env started (url param) = Some 500
      then 1 else 0) \<and>
   count_list (new_events w (snd (ISRHandler env param w))) NewPage =
     (if 0 < budget_check env 1 \<and> 0 < budget_check env 2 \<and>
         (\<not> truthy (ServerConfig_crawler env) \<or>
          externalStatus env (Date_now env 0) (url param) = Some 500)
      then 1 else 0)"
proof
  show "count_list (new_events w (snd (generatePage env param started rest w))) NewPage =
     (if \<not> truthy (ServerConfig_crawler env) \<or>
         externalStatus env started (url param) = Some 500
      then 1 else 0)"
    by (rule generatePage_count)
next
  show "count_list (new_events w (snd (ISRHandler env param w))) NewPage =
     (if 0 < budget_check env 1 \<and> 0 < budget_check env 2 \<and>
         (\<not> truthy (ServerConfig_crawler env) \<or>
          externalStatus env (Date_now env 0) (url param) = Some 500)
      then 1 else 0)"
  proof (cases "0 < budget_check env 1 \<and> 0 < budget_check env 2")
    case True
    then show ?thesis
      by (simp add: ISRHandler_within_budget generatePage_count)
  next
    case False
    then have "ISRHandler env param w = (Fulfilled None, w) \<or>
        ISRHandler env param w = serveStale env (url param) w"
      by (auto simp: ISRHandler_def Let_def)
    then have "new_events w (snd (ISRHandler env param w)) = [] \<or>
        new_events w (snd (ISRHandler env param w)) = [CacheAchieve (url param)]"
      using serveStale_world(1) [of env "url param" w] by (auto simp: new_events_def)
    with False show ?thesis by auto
  qed
qed

text \<open>
  Four runs for C5: no endpoint configured, an endpoint that cannot be reached (so that
  \<open>fetchData\<close> returns 500), an endpoint answering 403, and an exhausted budget.
\<close>

theorem C5_witness:
  "\<not> truthy (ServerConfig_crawler sample_env) \<and>
   count_list (new_events sample_world (snd (ISRHandler sample_env sample_param sample_world)))
     NewPage = 1 \<and>
   truthy (ServerConfig_crawler env_crawler_down) \<and>
   externalStatus env_crawler_down (Date_now env_crawler_down 0) (url sample_param) = Some 500 \<and>
   count_list (new_events sample_world
                 (snd (ISRHandler env_crawler_down sample_param sample_world))) NewPage = 1 \<and>
   truthy (ServerConfig_crawler env_external_403) \<and>
   externalStatus env_external_403 (Date_now env_external_403 0) (url sample_param) = Some 403 \<and>
   count_list (new_events sample_world
                 (snd (ISRHandler env_external_403 sample_param sample_world))) NewPage = 0 \<and>
   \<not> 0 < budget_check env_short_timeout 1 \<and>
   count_list (new_events sample_world
                 (snd (ISRHandler env_short_timeout sample_param sample_world))) NewPage = 0"
proof -
  have t: "\<not> truthy (ServerConfig_crawler sample_env)"
    "truthy (ServerConfig_crawler env_crawler_down)"
    "truthy (ServerConfig_crawler env_external_403)"
    by (simp_all add: truthy_def sample_env_def env_crawler_down_def env_external_403_def
        js_not_Nil)
  have s: "\<not> 0 < budget_check env_short_timeout 1"
    by (simp add: env_short_timeout_def sample_env_def getRestOfDuration_def
        gapDurationDefault_def)
  from C5_browser_path [where w = sample_world and env = sample_env and param = sample_param]
    C5_browser_path [where w = sample_world and env = env_crawler_down and param = sample_param]
    C5_browser_path [where w = sample_world and env = env_external_403 and param = sample_param]
    C5_browser_path [where w = sample_world and env = env_short_timeout and param = sample_param]
  show ?thesis
    using t s budget_sample budget_crawler_down budget_external_403
    by (simp add: externalStatus_403 externalStatus_down)
qed

subsection \<open>C6: the remaining budget\<close>

text \<open>
  C6 states the formula \<open>TOTAL_TIMEOUT - gap - (now - startedAt)\<close> and its monotonicity for
  all \<open>startedAt\<close>. The function guards a falsy start first: at \<open>startedAt = 0\<close> it returns
  \<open>0\<close>, which is not the value of the formula and does not decrease with the gap.
\<close>

theorem C6_counterexample:
  "getRestOfDuration 20000 5000 0 1500 \<noteq> 20000 - 1500 - (5000 - 0) \<and>
   \<not> getRestOfDuration 20000 5000 0 1500 < getRestOfDuration 20000 5000 0 0"
  by (simp add: getRestOfDuration_def)

text \<open>
  C6, amended: for every \<open>startedAt\<close> other than \<open>0\<close> the remaining budget is
  \<open>TOTAL_TIMEOUT - gap - (now - startedAt)\<close>, it does not increase when the elapsed time
  grows, and it strictly decreases when the gap grows; at \<open>startedAt = 0\<close> it is \<open>0\<close>.
\<close>

theorem C6_getRestOfDuration:
  "(started \<noteq> 0 \<longrightarrow>
      getRestOfDuration T now started gap = T - gap - (now - started) \<and>
      (now - started \<le> now' - started \<longrightarrow>
         getRestOfDuration T now' started gap \<le> getRestOfDuration T now started gap) \<and>
      (gap < gap' \<longrightarrow>
         getRestOfDuration T now started gap' < getRestOfDuration T now started gap)) \<and>
   (started = 0 \<longrightarrow> getRestOfDuration T now started gap = 0)"
  by (simp add: getRestOfDuration_def)

theorem C6_witness:
  "(1700000000000::int) \<noteq> 0 \<and>
   getRestOfDuration 20000 1700000000400 1700000000000 1500 = 18100 \<and>
   (1700000000400::int) - 1700000000000 \<le> 1700000000900 - 1700000000000 \<and>
   getRestOfDuration 20000 1700000000900 1700000000000 1500
     \<le> getRestOfDuration 20000 1700000000400 1700000000000 1500 \<and>
   (1500::int) < 2000 \<and>
   getRestOfDuration 20000 1700000000400 1700000000000 2000
     < getRestOfDuration 20000 1700000000400 1700000000000 1500 \<and>
   getRestOfDuration 20000 1700000000400 0 1500 = 0"
  using C6_getRestOfDuration
      [where started = 1700000000000 and T = 20000 and now = 1700000000400 and gap = 1500
         and now' = 1700000000900 and gap' = 2000]
    C6_getRestOfDuration [where started = 0 and T = 20000 and now = 1700000000400 and gap = 1500]
  by simp

subsection \<open>C7: no page handle on a first request\<close>

text \<open>
  C7 states that a first request which takes the browser render and gets no page handle
  ends with \<open>{status: 500}\<close>. In the run below no endpoint is configured, the browser has
  no page to give, and the request is the first one: the handler returns nothing, having
  only asked for the page.
\<close>

theorem C7_counterexample:
  "0 < budget_check env_no_page 1 \<and> 0 < budget_check env_no_page 2 \<and>
   isFirstRequest first_param \<and>
   \<not> truthy (ServerConfig_crawler env_no_page) \<and>
   browserManager_newPage env_no_page = None \<and>
   ISRHandler env_no_page first_param sample_world = (Fulfilled None, emit NewPage sample_world) \<and>
   fst (ISRHandler env_no_page first_param sample_world)
     \<noteq> Fulfilled (Some \<lparr>status = 500, html = None\<rparr>)"
  by (simp add: ISRHandler_def generatePage_def acquire_def crawlByExternal_def
      crawlByBrowser_def env_no_page_def sample_env_def first_param_def sample_param_def
      truthy_def getRestOfDuration_def gapDurationDefault_def)

text \<open>
  C7, amended: a first request that passes the budget checks, takes the browser render
  (no endpoint configured, or status 500 from the external crawl) and gets no page handle
  returns nothing, leaves the store as it found it and calls neither \<open>set\<close> nor \<open>remove\<close>.
\<close>

theorem C7_no_page_handle:
  assumes "0 < budget_check env 1" and "0 < budget_check env 2"
    and "isFirstRequest param"
    and "\<not> truthy (ServerConfig_crawler env) \<or>
         externalStatus env (Date_now env 0) (url param) = Some 500"
    and "browserManager_newPage env = None"
  shows "fst (ISRHandler env param w) = Fulfilled None \<and>
         store (snd (ISRHandler env param w)) = store w \<and>
         (\<forall>e \<in> set (new_events w (snd (ISRHandler env param w))). \<not> is_cache_mutation e)"
proof -
  from acquire_no_page [OF assms(4,5), where rest = "budget_check env 2" and w = w] assms(3)
  obtain w1 evs where
    "acquire env param (Date_now env 0) (budget_check env 2) w =
       Inl (Fulfilled None, emit NewPage w1)"
    "store w1 = store w" "trace w1 = trace w @ evs" "\<forall>e \<in> set evs. \<not> is_cache_mutation e"
    by auto
  then show ?thesis
    using assms(1,2)
    by (simp add: ISRHandler_within_budget generatePage_def new_events_def store_emit trace_emit)
qed

theorem C7_witness:
  "0 < budget_check env_no_page 1 \<and> 0 < budget_check env_no_page 2 \<and>
   isFirstRequest first_param \<and>
   \<not> truthy (ServerConfig_crawler env_no_page) \<and>
   browserManager_newPage env_no_page = None \<and>
   fst (ISRHandler env_no_page first_param sample_world) = Fulfilled None \<and>
   store (snd (ISRHandler env_no_page first_param sample_world)) = store sample_world \<and>
   new_events sample_world (snd (ISRHandler env_no_page first_param sample_world)) = [NewPage]"
proof -
  have f: "isFirstRequest first_param"
    by (simp add: first_param_def)
  have t: "\<not> truthy (ServerConfig_crawler env_no_page)"
    by (simp add: truthy_def env_no_page_def sample_env_def)
  have n: "browserManager_newPage env_no_page = None"
    by (simp add: env_no_page_def sample_env_def)
  have "acquire env_no_page first_param (Date_now env_no_page 0) (budget_check env_no_page 2)
      sample_world = Inl (Fulfilled None, emit NewPage sample_world)"
    using t n f
    by (simp add: acquire_def crawlByExternal_def crawlByBrowser_no_page truthy_def
        split: option.splits)
  then have evs: "new_events sample_world
      (snd (ISRHandler env_no_page first_param sample_world)) = [NewPage]"
    by (simp add: ISRHandler_within_budget [OF budget_no_page] generatePage_def new_events_def
        trace_emit sample_world_def)
  from C7_no_page_handle [OF budget_no_page f disjI1 [OF t] n, of sample_world]
  show ?thesis
    using budget_no_page f t n evs by blast
qed

subsection \<open>C8: when the body of the crawl response is decoded\<close>

text \<open>
  C8 states that the body is decoded as JSON exactly when it has the shape of a single
  object spanning the whole body. The body below is \<open>{"a":"\<close>, the line separator U+2028,
  \<open>"}\<close>: it opens with a brace and closes with one, and the parser of this run accepts
  everything, yet the data returned is the text itself, undecoded. The pattern of
  \<open>fetchData\<close> puts \<open>(.|[\r\n])\<close> between the braces to let any character stand there,
  line breaks included; \<open>.\<close> leaves out four line terminators and the class gives back
  only two of them, so U+2028 and U+2029 are missed.
\<close>

theorem C8_separator_body_used_as_text:
  "spec_json_object_shape body_with_separator \<and>
   fetchData (\<lambda>body. Inr ()) (\<lambda>input reqData. FetchResponds 200 (Inr body_with_separator))
     (js ''http://crawler'') None = Inr (Fetched 200 (Str body_with_separator))"
  by (simp add: fetchData_def fetchData_body_def try_catch_def regexJsonObject_shape
      spec_json_object_shape_def body_with_separator_def js_simps)

text \<open>
  What \<open>fetchData\<close> does with a body it could read, in full: the body goes to \<open>JSON.parse\<close>
  when it has the shape and neither separator in it, and is the data as it is otherwise.
\<close>

lemma fetchData_on_body:
  assumes "fetcher input reqData = FetchResponds st (Inr body)"
  shows "fetchData parse fetcher input reqData =
           (if spec_json_object_shape body \<and> (\<forall>c \<in> set body. c \<noteq> 0x2028 \<and> c \<noteq> 0x2029)
            then (case parse body of
                    Inl error \<Rightarrow> Inr (Fetched 500 (Str []))
                  | Inr v \<Rightarrow> Inr (Fetched st (Json v)))
            else Inr (Fetched st (Str body)))"
  using assms
  by (simp add: fetchData_def fetchData_body_def try_catch_def regexJsonObject_shape
      split: sum.splits)

subsection \<open>C9: the status after a browser render\<close>

text \<open>
  C9 states that the status is 404 exactly when the document contains an element whose id
  equals the configured identifier. With the default identifier \<open>404-page\<close>, the document
  below has one element, with the id \<open>404-page-old\<close>; it does not contain
  \<open>id="404-page"\<close>, and the browser render gives it status 404. The pattern asks for \<open>id=\<close>,
  an optional quote, the identifier and an optional quote: the closing quote is there to
  end the value, but being optional it ends nothing, and any id that begins with the
  identifier matches.
\<close>

theorem C9_longer_id_classified_not_found:
  "NOT_FOUND_PAGE_ID (env_renders doc_longer_id) = default_NOT_FOUND_PAGE_ID \<and>
   crawlByBrowser (env_renders doc_longer_id) sample_param 18498 200 sample_world =
     Inr (404, Str doc_longer_id, emit PageClose (emit NewPage sample_world)) \<and>
   \<not> spec_sentinel_marker default_NOT_FOUND_PAGE_ID doc_longer_id"
  using no_sentinel_doc_longer_id
  by (simp add: crawlByBrowser_rendering env_renders_fields status_longer_id)

text \<open>
  What the classification does for every plain identifier: 404 exactly for the documents
  that contain \<open>id=\<close>, at most one quote and the identifier; the documents with an element
  carrying \<open>id="<identifier>"\<close> are among them.
\<close>

lemma crawlByBrowser_status:
  assumes "plain_identifier (NOT_FOUND_PAGE_ID env)"
    and "crawlByBrowser env param rest st w = Inr (st', h', w')"
  shows "\<exists>h. h' = Str h \<and> st' = (if marker_text (NOT_FOUND_PAGE_ID env) h then 404 else 200)"
  using crawlByBrowser_Inr [OF assms(2)] notFoundStatus_marker [OF assms(1)]
  by auto

subsection \<open>C10: the budget is measured from the handler's own entry\<close>

text \<open>
  C10 states that, whatever \<open>startGenerating\<close> the caller passes, neither exit of the
  budget checks is taken as long as the timeout exceeds 1500 ms plus the time between
  entry and check. In the run below the clock reads \<open>0\<close> at entry and \<open>1\<close> and \<open>2\<close> at the
  checks, the timeout is 20 s, and the handler returns nothing without any call: the
  guard of \<open>getRestOfDuration\<close> takes the start \<open>0\<close> for a missing one and answers \<open>0\<close>.
\<close>

theorem C10_counterexample:
  "1500 + (Date_now env_epoch_clock 1 - Date_now env_epoch_clock 0)
     < DURATION_TIMEOUT env_epoch_clock \<and>
   1500 + (Date_now env_epoch_clock 2 - Date_now env_epoch_clock 0)
     < DURATION_TIMEOUT env_epoch_clock \<and>
   ISRHandler env_epoch_clock sample_param sample_world = (Fulfilled None, sample_world)"
  by (simp add: env_epoch_clock_def sample_env_def ISRHandler_def getRestOfDuration_def)

text \<open>
  C10, amended: the result does not depend on the \<open>startGenerating\<close> of the parameter; and
  when the clock does not read \<open>0\<close> at entry and the timeout exceeds 1500 ms plus the time
  between entry and each of the two checks, the handler goes on to the acquisition: it
  is the rest of the handler run from the entry time, and its first call is an
  acquisition.
\<close>

theorem C10_budget_from_entry:
  "ISRHandler env (param\<lparr>startGenerating := s\<rparr>) w = ISRHandler env param w \<and>
   (Date_now env 0 \<noteq> 0 \<and>
    1500 + (Date_now env 1 - Date_now env 0) < DURATION_TIMEOUT env \<and>
    1500 + (Date_now env 2 - Date_now env 0) < DURATION_TIMEOUT env \<longrightarrow>
      ISRHandler env param w =
        generatePage env param (Date_now env 0)
          (DURATION_TIMEOUT env - 1500 - (Date_now env 2 - Date_now env 0)) w \<and>
      (\<exists>e evs. new_events w (snd (ISRHandler env param w)) = e # evs \<and> is_acquisition e))"
proof (intro conjI impI)
  show "ISRHandler env (param\<lparr>startGenerating := s\<rparr>) w = ISRHandler env param w"
    by (rule ISRHandler_param)
next
  assume a: "Date_now env 0 \<noteq> 0 \<and>
    1500 + (Date_now env 1 - Date_now env 0) < DURATION_TIMEOUT env \<and>
    1500 + (Date_now env 2 - Date_now env 0) < DURATION_TIMEOUT env"
  then have b: "0 < budget_check env 1" "0 < budget_check env 2"
    and r: "budget_check env 2 = DURATION_TIMEOUT env - 1500 - (Date_now env 2 - Date_now env 0)"
    by (simp_all add: getRestOfDuration_def gapDurationDefault_def)
  from ISRHandler_within_budget [OF b, of param w] r
  show g: "ISRHandler env param w =
        generatePage env param (Date_now env 0)
          (DURATION_TIMEOUT env - 1500 - (Date_now env 2 - Date_now env 0)) w"
    by simp
  show "\<exists>e evs. new_events w (snd (ISRHandler env param w)) = e # evs \<and> is_acquisition e"
    unfolding g by (rule generatePage_starts_acquisition)
qed

text \<open>
  A run for C10: the caller's \<open>startGenerating\<close> lies far in the past, and the handler
  renders all the same.
\<close>

theorem C10_witness:
  "Date_now sample_env 0 \<noteq> 0 \<and>
   1500 + (Date_now sample_env 1 - Date_now sample_env 0) < DURATION_TIMEOUT sample_env \<and>
   1500 + (Date_now sample_env 2 - Date_now sample_env 0) < DURATION_TIMEOUT sample_env \<and>
   ISRHandler sample_env (sample_param\<lparr>startGenerating := 5\<rparr>) sample_world =
     ISRHandler sample_env sample_param sample_world \<and>
   (\<exists>e evs. new_events sample_world (snd (ISRHandler sample_env sample_param sample_world)) =
      e # evs \<and> is_acquisition e)"
proof -
  have clock: "Date_now sample_env 0 \<noteq> 0 \<and>
      1500 + (Date_now sample_env 1 - Date_now sample_env 0) < DURATION_TIMEOUT sample_env \<and>
      1500 + (Date_now sample_env 2 - Date_now sample_env 0) < DURATION_TIMEOUT sample_env"
    by (simp add: sample_env_def)
  with C10_budget_from_entry
    [where env = sample_env and param = sample_param and s = 5 and w = sample_world]
  show ?thesis by blast
qed

end
